theory Spec2Isabelle
  imports Main "HOL-Library.AList" "HOL-Library.Sublist"
begin

section \<open>JavaScript values\<close>

text \<open>
  The values that flow through the scanner are what \<^verbatim>\<open>JSON.parse\<close> returns and what the
  remote endpoint answers. \<open>undefined\<close> is the missing value of an \<open>option\<close>. The code
  observes numbers only through their truthiness, so a number is an integer here and is
  falsy exactly when it is zero.
\<close>

datatype json =
    JNull
  | JBool bool
  | JNum int
  | JStr string
  | JArr "json list"
  | JObj "(string \<times> json) list"

type_synonym jsval = "json option"

fun truthy :: "json \<Rightarrow> bool" where
  "truthy JNull = False"
| "truthy (JBool b) = b"
| "truthy (JNum n) = (n \<noteq> 0)"
| "truthy (JStr s) = (s \<noteq> [])"
| "truthy (JArr xs) = True"
| "truthy (JObj kvs) = True"

fun truthyVal :: "jsval \<Rightarrow> bool" where
  "truthyVal None = False"
| "truthyVal (Some j) = truthy j"

text \<open>\<^verbatim>\<open>a || b\<close>\<close>

definition jsOr :: "jsval \<Rightarrow> jsval \<Rightarrow> jsval" where
  "jsOr a b = (if truthyVal a then a else b)"

text \<open>
  \<^verbatim>\<open>x.k\<close> on a value that is neither \<open>null\<close> nor \<open>undefined\<close>: only an object has the
  keys this code reads (\<open>indexNumber\<close>, \<open>name\<close>, \<open>status\<close>, ...); on a primitive or an
  array the read gives \<open>undefined\<close>. An object is an association list read at its first
  match and written with \<open>AList.update\<close>.
\<close>

fun getProp :: "json \<Rightarrow> string \<Rightarrow> jsval" where
  "getProp (JObj kvs) k = map_of kvs k"
| "getProp j k = None"

text \<open>\<^verbatim>\<open>x?.k\<close>: \<open>undefined\<close> when \<open>x\<close> is \<open>null\<close> or \<open>undefined\<close>.\<close>

fun getPropOpt :: "jsval \<Rightarrow> string \<Rightarrow> jsval" where
  "getPropOpt None k = None"
| "getPropOpt (Some JNull) k = None"
| "getPropOpt (Some j) k = getProp j k"

section \<open>Strings\<close>

text \<open>
  A string is a list of 8-bit characters, so the model covers the texts whose code units
  are below 256. Of the class \<^verbatim>\<open>\s\<close> of a regular expression these are TAB, LF, VT, FF,
  CR, SPACE and the no-break space.
\<close>

definition isSpace :: "char \<Rightarrow> bool" where
  "isSpace c =
     (c \<in> set [CHR 0x09, CHR 0x0A, CHR 0x0B, CHR 0x0C, CHR 0x0D, CHR 0x20, CHR 0xA0])"

text \<open>
  \<^verbatim>\<open>s.replace(/\s+/g, '')\<close>: scanning from the left, every maximal run of white space is
  matched once and replaced by the empty string.
\<close>

function replaceSpaces :: "string \<Rightarrow> string" where
  "replaceSpaces [] = []"
| "replaceSpaces (c # cs) =
     (if isSpace c then replaceSpaces (dropWhile isSpace cs) else c # replaceSpaces cs)"
  by pat_completeness auto
termination
  by (relation "measure length") (auto simp: length_dropWhile_le less_Suc_eq_le)

text \<open>\<^verbatim>\<open>s.includes(pat)\<close>\<close>

fun jsIncludes :: "string \<Rightarrow> string \<Rightarrow> bool" where
  "jsIncludes [] pat = (pat = [])"
| "jsIncludes (c # cs) pat = (prefix pat (c # cs) \<or> jsIncludes cs pat)"

text \<open>Decimal digits, for numbers inside template strings and dates.\<close>

definition digit :: "nat \<Rightarrow> char" where
  "digit n = ''0123456789'' ! (n mod 10)"

fun showNat :: "nat \<Rightarrow> string" where
  "showNat n = (if n < 10 then [digit n] else showNat (n div 10) @ [digit n])"

declare showNat.simps [simp del]

definition showInt :: "int \<Rightarrow> string" where
  "showInt i = (if i < 0 then CHR ''-'' # showNat (nat (- i)) else showNat (nat i))"

text \<open>
  \<^verbatim>\<open>{...x}\<close>: the own enumerable properties of \<open>x\<close>. An object gives its entries, an
  array and a string their elements under their indices, every other value nothing.
\<close>

fun spread :: "json \<Rightarrow> (string \<times> json) list" where
  "spread (JObj kvs) = kvs"
| "spread (JArr xs) = zip (map showNat [0 ..< length xs]) xs"
| "spread (JStr s) = zip (map showNat [0 ..< length s]) (map (\<lambda>c. JStr [c]) s)"
| "spread j = []"

text \<open>
  The string a value turns into inside a template string: an array joins its elements with
  commas, \<open>null\<close> elements as the empty string. A number up to \<open>2 ^ 53\<close> in absolute value
  prints its decimal digits; how a larger one prints (rounded to a double, in exponent
  notation from \<open>10 ^ 21\<close>) is the argument \<open>numText\<close>.
\<close>

fun joinComma :: "string list \<Rightarrow> string" where
  "joinComma [] = []"
| "joinComma [x] = x"
| "joinComma (x # y # zs) = x @ '','' @ joinComma (y # zs)"

fun jsToString :: "(int \<Rightarrow> string) \<Rightarrow> json \<Rightarrow> string" where
  "jsToString numText JNull = ''null''"
| "jsToString numText (JBool b) = (if b then ''true'' else ''false'')"
| "jsToString numText (JNum n) = (if \<bar>n\<bar> \<le> 2 ^ 53 then showInt n else numText n)"
| "jsToString numText (JStr s) = s"
| "jsToString numText (JArr xs) =
     joinComma (map (\<lambda>x. if x = JNull then [] else jsToString numText x) xs)"
| "jsToString numText (JObj kvs) = ''[object Object]''"

text \<open>
  \<^verbatim>\<open>new Date().toISOString()\<close>: the clock is read as the fields of the current UTC time
  (a year of four digits).
\<close>

record date =
  year :: nat
  month :: nat
  day :: nat
  hours :: nat
  minutes :: nat
  seconds :: nat
  milliseconds :: nat

definition pad2 :: "nat \<Rightarrow> string" where
  "pad2 n = [digit (n div 10), digit n]"

definition toISOString :: "date \<Rightarrow> string" where
  "toISOString d =
     pad2 (year d div 100) @ pad2 (year d) @ ''-'' @ pad2 (month d) @ ''-'' @ pad2 (day d)
     @ ''T'' @ pad2 (hours d) @ '':'' @ pad2 (minutes d) @ '':'' @ pad2 (seconds d)
     @ ''.'' @ [digit (milliseconds d div 100)] @ pad2 (milliseconds d) @ ''Z''"

section \<open>The API client\<close>

text \<open>
  An HTTP response as the handlers read it: its status, its body (\<open>data\<close>), the URL of
  the request it answers (\<open>config.url\<close>) and \<^verbatim>\<open>parseInt(headers['retry-after'])\<close>
  (\<open>None\<close> when that is \<open>NaN\<close>). A thrown value has a message and, when axios rejects
  for a status, the response.
\<close>

record response =
  status :: nat
  data :: jsval
  url :: string
  retryAfter :: "int option"

record jsError =
  message :: string
  response :: "response option"

definition Error :: "string \<Rightarrow> jsError" where
  "Error msg = \<lparr>message = msg, response = None\<rparr>"

definition API_URL :: string where
  "API_URL = ''http://localhost:5001/api''"

text \<open>What the health endpoint does when probed: the request fails or times out, or it
  answers with a status and a body (\<open>validateStatus: false\<close>, so no status throws).\<close>

datatype probe = ProbeFails | ProbeAnswers nat jsval

text \<open>A remote call as it leaves the client: the probe of the health endpoint (its URL and
  its timeout in milliseconds), or a request with its configuration.\<close>

record 'b config =
  requestUrl :: string
  verb :: string
  body :: 'b
  headers :: "(string \<times> string) list"
  timeoutMs :: nat
  withCredentials :: bool

datatype 'b call = Probe string nat | Send "'b config"

text \<open>The probe of \<open>checkServerConnectivity\<close>:
  \<^verbatim>\<open>axios.get(`${API_URL}/health`, { timeout: 5000, validateStatus: false })\<close>.\<close>

abbreviation healthProbe :: "'b call" where
  "healthProbe \<equiv> Probe (API_URL @ ''/health'') 5000"

definition checkServerConnectivity :: "probe \<Rightarrow> bool" where
  "checkServerConnectivity p =
     (case p of
        ProbeFails \<Rightarrow> False
      | ProbeAnswers st d \<Rightarrow> st = 200 \<and> getPropOpt d ''status'' = Some (JStr ''ok''))"

text \<open>The two token stores: \<^verbatim>\<open>localStorage.getItem('token')\<close> and
  \<^verbatim>\<open>sessionStorage.getItem('token')\<close>, \<open>None\<close> for \<open>null\<close>.\<close>

record storage =
  localToken :: "string option"
  sessionToken :: "string option"

definition truthyStr :: "string option \<Rightarrow> bool" where
  "truthyStr t = (case t of None \<Rightarrow> False | Some s \<Rightarrow> s \<noteq> [])"

text \<open>The request handler of \<^verbatim>\<open>api.interceptors.request.use\<close>.\<close>

definition requestInterceptor ::
  "probe \<Rightarrow> storage \<Rightarrow> 'b config \<Rightarrow> jsError + 'b config" where
  "requestInterceptor p st cfg =
     (if \<not> checkServerConnectivity p
      then Inl (Error ''Server is not responding. Please check if the server is running.'')
      else
        (let token = (if \<not> truthyStr (localToken st) then sessionToken st else localToken st)
         in case token of
              None \<Rightarrow> Inr cfg
            | Some tok \<Rightarrow>
                if tok \<noteq> []
                then Inr (cfg\<lparr>headers :=
                            AList.update ''Authorization'' (''Bearer '' @ tok) (headers cfg)\<rparr>)
                else Inr cfg))"

text \<open>What a handler does besides returning: toasts, and for a 401 the logout.\<close>

datatype effect =
    ToastError json
  | ToastWarning json
  | ToastSuccess json
  | RemoveItem string
  | Redirect string

definition orElse :: "jsval \<Rightarrow> string \<Rightarrow> json" where
  "orElse v d = (case jsOr v (Some (JStr d)) of Some j \<Rightarrow> j | None \<Rightarrow> JStr d)"

text \<open>\<^verbatim>\<open>Math.ceil(n / 60)\<close> for an integer \<open>n\<close>.\<close>

definition ceil60 :: "int \<Rightarrow> int" where
  "ceil60 n = - ((- n) div 60)"

text \<open>The error handler of \<^verbatim>\<open>api.interceptors.response.use\<close>: the effects and the value
  it rejects with.\<close>

definition responseRejected :: "jsError \<Rightarrow> effect list \<times> jsError" where
  "responseRejected e =
     (case response e of
        None \<Rightarrow>
          ([ToastError
              (JStr ''Cannot connect to server. Please check your connection and try again.'')],
           Error ''Server connection failed'')
      | Some r \<Rightarrow>
          if status r = 0 then
            ([ToastError
                (JStr ''Cannot connect to server. Please check your connection and try again.'')],
             Error ''Server connection failed'')
          else if status r = 401 then
            ([RemoveItem ''token'', RemoveItem ''user'', Redirect ''/login''], e)
          else if status r = 403 then
            ([ToastError (JStr ''You do not have permission to perform this action'')], e)
          else if status r = 400 \<and> jsIncludes (url r) ''/reports/'' then
            (let msg = orElse (getPropOpt (data r) ''message'') ''Invalid report parameters'';
                 err = getPropOpt (data r) ''error''
             in if err = Some (JStr ''future_date'') then
                  ([ToastError (JStr ''Reports cannot be generated for future dates'')], e)
                else if err = Some (JStr ''date_range_invalid'') then
                  ([ToastError
                      (JStr ''Invalid date range. The start date must be before the end date.'')],
                   e)
                else if err = Some (JStr ''no_data'') then
                  ([ToastWarning (JStr ''No attendance data found for the selected period'')], e)
                else ([ToastError msg], e))
          else if status r = 422 then
            ([ToastError (orElse (getPropOpt (data r) ''message'') ''Validation failed'')], e)
          else if status r = 429 then
            (let after = (case retryAfter r of
                            None \<Rightarrow> 60
                          | Some n \<Rightarrow> if n = 0 then 60 else n)
             in ([ToastWarning
                    (JStr (''Too many attempts. Please wait '' @ showInt (ceil60 after)
                           @ '' minutes.''))],
                 e))
          else if status r \<ge> 500 then
            ([ToastError (JStr ''Server error. Please try again later.'')], e)
          else ([], e))"

text \<open>What the network does with a request that is sent: no response at all (with the
  message of the failure), or a response. Axios resolves for a status from 200 to 299 and
  rejects for every other one, the response attached to the error.\<close>

datatype net = NetFails string | NetAnswers response

record 'b apiRun =
  calls :: "'b call list"
  effects :: "effect list"
  logs :: "string list"
  outcome :: "jsError + response"

text \<open>
  One request through the \<open>api\<close> instance. Axios chains the handlers as promise
  continuations in the order request handler, dispatch, response handlers; a rejection of
  the request handler therefore skips the dispatch and arrives at the error handler of
  the response interceptor, like a rejection of the dispatch itself.
\<close>

definition apiRequest :: "probe \<Rightarrow> storage \<Rightarrow> net \<Rightarrow> 'b config \<Rightarrow> 'b apiRun" where
  "apiRequest p st nw cfg =
     (case requestInterceptor p st cfg of
        Inl e \<Rightarrow>
          (let (fx, e') = responseRejected e
           in \<lparr>calls = [healthProbe], effects = fx, logs = [], outcome = Inl e'\<rparr>)
      | Inr cfg' \<Rightarrow>
          (case nw of
             NetFails msg \<Rightarrow>
               (let (fx, e') = responseRejected (Error msg)
                in \<lparr>calls = [healthProbe, Send cfg'], effects = fx, logs = [],
                    outcome = Inl e'\<rparr>)
           | NetAnswers r \<Rightarrow>
               if 200 \<le> status r \<and> status r < 300
               then \<lparr>calls = [healthProbe, Send cfg'], effects = [], logs = [],
                     outcome = Inr r\<rparr>
               else
                 (let (fx, e') =
                        responseRejected
                          \<lparr>message = ''Request failed with status code '' @ showNat (status r),
                           response = Some r\<rparr>
                  in \<lparr>calls = [healthProbe, Send cfg'], effects = fx, logs = [],
                      outcome = Inl e'\<rparr>)))"

text \<open>\<^verbatim>\<open>api.post(url, data)\<close> with the defaults of \<^verbatim>\<open>axios.create\<close>.\<close>

definition post :: "string \<Rightarrow> 'b \<Rightarrow> 'b config" where
  "post u b =
     \<lparr>requestUrl = u, verb = ''post'', body = b,
      headers = [(''Content-Type'', ''application/json'')],
      timeoutMs = 15000, withCredentials = True\<rparr>"

subsection \<open>\<open>qrCodeService.markAttendance\<close>\<close>

record enrichedData =
  qrCodeData :: json
  deviceInfo :: string
  scanLocation :: string

text \<open>
  \<open>sanitizedQrData\<close>. Reading a property of \<open>null\<close> throws, and so does calling
  \<open>replace\<close> on a truthy value that is not a string.
\<close>

definition sanitizedQrData :: "json \<Rightarrow> jsError + json" where
  "sanitizedQrData qrData =
     (if qrData = JNull
      then Inl (Error ''Cannot read properties of null (reading 'parent_telephone')'')
      else
        (let tel = getProp qrData ''parent_telephone'' in
         if truthyVal tel then
           (case tel of
              Some (JStr t) \<Rightarrow>
                Inr (JObj (AList.update ''parent_telephone'' (JStr (replaceSpaces t))
                             (spread qrData)))
            | _ \<Rightarrow> Inl (Error ''qrData.parent_telephone.replace is not a function''))
         else Inr (JObj (AList.update ''parent_telephone'' (JStr []) (spread qrData)))))"

text \<open>\<open>markAttendance\<close>; \<open>ua\<close> is \<^verbatim>\<open>navigator.userAgent\<close>. The \<open>catch\<close> logs and rethrows.\<close>

definition markAttendance ::
  "string \<Rightarrow> probe \<Rightarrow> storage \<Rightarrow> net \<Rightarrow> json \<Rightarrow> enrichedData apiRun" where
  "markAttendance ua p st nw qrData =
     (case sanitizedQrData qrData of
        Inl e \<Rightarrow>
          \<lparr>calls = [], effects = [], logs = [''Error marking attendance via QR code:''],
           outcome = Inl e\<rparr>
      | Inr sq \<Rightarrow>
          (let enriched = \<lparr>qrCodeData = sq, deviceInfo = ua, scanLocation = ''QR Scanner App''\<rparr>;
               req = apiRequest p st nw (post ''/students/mark-attendance'' enriched)
           in case outcome req of
                Inl e \<Rightarrow> req\<lparr>logs := [''Error marking attendance via QR code:'']\<rparr>
              | Inr r \<Rightarrow> req\<lparr>logs := [''Full attendance API response:'']\<rparr>))"

section \<open>The \<open>useQRScanner\<close> hook: acquiring and releasing the camera\<close>

text \<open>
  The hook keeps three references (\<open>videoRef\<close>, \<open>streamRef\<close>, \<open>animationRef\<close>) and three
  state variables (\<open>scannedData\<close> is \<open>JNull\<close> while it is \<open>null\<close>). The browser side is
  explicit:

  \<^item> \<open>media\<close> lists every \<open>MediaStream\<close> that \<open>getUserMedia\<close> has handed out, one liveness
    flag per track (a stream's handle is its position);
  \<^item> \<open>pendingStarts\<close> counts the calls of \<open>startScanner\<close> whose \<open>getUserMedia\<close> has not
    settled;
  \<^item> \<open>frames\<close> holds the pending \<open>requestAnimationFrame\<close> handles, which are positive;
  \<^item> \<open>videoRef\<close> is the video element while React keeps it in \<open>videoRef.current\<close>, and
    \<open>detached\<close> is that element once React has taken it out of the reference.
\<close>

record video =
  srcObject :: "nat option"
  playing :: bool
  onloadedmetadata :: bool

record hook =
  h_scanning :: bool
  h_scannedData :: json
  h_error :: "string option"
  videoRef :: "video option"
  detached :: "video option"
  h_canvasRef :: bool
  streamRef :: "nat option"
  animationRef :: "nat option"
  pendingStarts :: nat
  media :: "bool list list"
  frames :: "nat list"
  frameCount :: nat
  h_console :: "string list"

definition requestAnimationFrame :: "hook \<Rightarrow> hook" where
  "requestAnimationFrame w =
     w\<lparr>frames := frames w @ [Suc (frameCount w)],
       frameCount := Suc (frameCount w),
       animationRef := Some (Suc (frameCount w))\<rparr>"

text \<open>\<^verbatim>\<open>track.stop()\<close> on every track of the stream with handle \<open>sid\<close>.\<close>

definition stopTracks :: "nat \<Rightarrow> bool list list \<Rightarrow> bool list list" where
  "stopTracks sid m = (if sid < length m then m[sid := map (\<lambda>t. False) (m ! sid)] else m)"

text \<open>A stream is active while one of its tracks is live.\<close>

definition liveStreams :: "bool list list \<Rightarrow> nat list" where
  "liveStreams m = filter (\<lambda>i. True \<in> set (m ! i)) [0 ..< length m]"

definition activeStreams :: "hook \<Rightarrow> nat list" where
  "activeStreams w = liveStreams (media w)"

text \<open>
  \<open>startScanner\<close> is asynchronous. It runs to its
  \<^verbatim>\<open>await navigator.mediaDevices.getUserMedia(constraints)\<close>, which leaves a request
  pending, and resumes when that settles; anything may happen in between.
\<close>

definition startScanner :: "hook \<Rightarrow> hook" where
  "startScanner w =
     w\<lparr>h_error := None, h_scannedData := JNull, h_scanning := True,
       pendingStarts := Suc (pendingStarts w)\<rparr>"

text \<open>
  \<open>startScanner\<close> after the \<open>await\<close>; the outcome of \<open>getUserMedia\<close> is the first argument:
  \<open>Inl msg\<close> when it rejects, \<open>Inr n\<close> when it resolves with a stream of \<open>n\<close> live tracks.
  The request is no longer pending.
\<close>

definition startScannerSettled :: "string + nat \<Rightarrow> hook \<Rightarrow> hook" where
  "startScannerSettled gum w =
     (case gum of
        Inl msg \<Rightarrow>
          w\<lparr>pendingStarts := pendingStarts w - 1,
            h_error := Some (''Failed to access camera: '' @ msg), h_scanning := False\<rparr>
      | Inr n \<Rightarrow>
          (let sid = length (media w);
               w2 = w\<lparr>pendingStarts := pendingStarts w - 1,
                      media := media w @ [replicate n True], streamRef := Some sid\<rparr>
           in case videoRef w2 of
                None \<Rightarrow> w2
              | Some v \<Rightarrow>
                  w2\<lparr>videoRef :=
                       Some (v\<lparr>srcObject := Some sid, playing := True,
                                onloadedmetadata := True\<rparr>)\<rparr>))"

definition stopScanner :: "hook \<Rightarrow> hook" where
  "stopScanner w =
     (let w1 = (case animationRef w of
                  None \<Rightarrow> w
                | Some i \<Rightarrow>
                    if i \<noteq> 0 then w\<lparr>frames := removeAll i (frames w), animationRef := None\<rparr>
                    else w);
          w2 = (case streamRef w1 of
                  None \<Rightarrow> w1
                | Some sid \<Rightarrow> w1\<lparr>media := stopTracks sid (media w1), streamRef := None\<rparr>);
          w3 = (case videoRef w2 of
                  None \<Rightarrow> w2
                | Some v \<Rightarrow> w2\<lparr>videoRef := Some (v\<lparr>srcObject := None\<rparr>)\<rparr>)
      in w3\<lparr>h_scanning := False\<rparr>)"

text \<open>
  The cleanup of the unmount effect. It is a passive effect: when it runs, React has
  already detached the video and canvas elements from their references, so \<open>stopScanner\<close>
  finds \<open>videoRef.current\<close> empty.
\<close>

definition unmount :: "hook \<Rightarrow> hook" where
  "unmount w =
     stopScanner (w\<lparr>detached := videoRef w, videoRef := None, h_canvasRef := False\<rparr>)"

text \<open>
  What the decoding of one raster buffer gives: reading the canvas throws, the decoder
  (\<open>jsQR\<close>) throws, the decoder finds no symbol, or it returns the text of a symbol. An
  animation frame of the hook may also find the video not ready yet.
\<close>

datatype decode = CanvasThrows string | DecoderThrows string | NoCode | Code string

datatype frame = NotReady | Ready decode

text \<open>
  \<open>processFrame\<close>. The callback is memoised on \<open>[scanning, stopScanner]\<close>, so the
  \<open>scanning\<close> it tests is the value of the render that created it: the argument \<open>sc\<close>.
  \<^verbatim>\<open>JSON.parse\<close> is the argument \<open>parse\<close>, \<open>None\<close> where it throws.
\<close>

definition processFrame :: "(string \<Rightarrow> json option) \<Rightarrow> bool \<Rightarrow> frame \<Rightarrow> hook \<Rightarrow> hook" where
  "processFrame parse sc fr w =
     (if \<not> sc \<or> videoRef w = None \<or> \<not> h_canvasRef w then w
      else case fr of
        NotReady \<Rightarrow> requestAnimationFrame w
      | Ready (CanvasThrows msg) \<Rightarrow>
          requestAnimationFrame (w\<lparr>h_console := h_console w @ [''Error processing frame:'']\<rparr>)
      | Ready (DecoderThrows msg) \<Rightarrow>
          requestAnimationFrame (w\<lparr>h_console := h_console w @ [''Error processing frame:'']\<rparr>)
      | Ready NoCode \<Rightarrow> requestAnimationFrame w
      | Ready (Code txt) \<Rightarrow>
          (let w1 = w\<lparr>h_console := h_console w @ [''QR Code detected:'']\<rparr> in
           case parse txt of
             Some qrData \<Rightarrow> stopScanner (w1\<lparr>h_scannedData := qrData\<rparr>)
           | None \<Rightarrow> stopScanner (w1\<lparr>h_scannedData := JObj [(''rawData'', JStr txt)]\<rparr>)))"

text \<open>The hook as mounted: nothing acquired, the video and canvas elements attached.\<close>

definition hook0 :: hook where
  "hook0 =
     \<lparr>h_scanning = False, h_scannedData = JNull, h_error = None,
      videoRef = Some \<lparr>srcObject = None, playing = False, onloadedmetadata = False\<rparr>,
      detached = None, h_canvasRef = True, streamRef = None, animationRef = None,
      pendingStarts = 0, media = [], frames = [], frameCount = 0, h_console = []\<rparr>"

text \<open>
  What can happen to the mounted hook: the host calls \<open>startScanner\<close>, the oldest pending
  \<open>getUserMedia\<close> settles, the host calls \<open>stopScanner\<close>, the host unmounts, the attached
  video fires \<open>loadedmetadata\<close>, or the oldest requested animation frame runs. \<open>startScanner\<close> is
  memoised on \<open>[]\<close>, so the \<open>processFrame\<close> that its \<open>onloadedmetadata\<close> handler requests, and
  that requests itself again, is the one of the first render: it sees \<open>scanning = false\<close>.
\<close>

datatype hookEvent =
    StartScanner
  | StartSettles "string + nat"
  | StopScanner
  | Unmount
  | LoadedMetadata
  | AnimationFrame frame

fun hookStep :: "(string \<Rightarrow> json option) \<Rightarrow> hookEvent \<Rightarrow> hook \<Rightarrow> hook" where
  "hookStep parse StartScanner w = startScanner w"
| "hookStep parse (StartSettles gum) w =
     (if pendingStarts w = 0 then w else startScannerSettled gum w)"
| "hookStep parse StopScanner w = stopScanner w"
| "hookStep parse Unmount w = unmount w"
| "hookStep parse LoadedMetadata w =
     (case videoRef w of
        None \<Rightarrow> w
      | Some v \<Rightarrow> if onloadedmetadata v then requestAnimationFrame w else w)"
| "hookStep parse (AnimationFrame fr) w =
     (case frames w of
        [] \<Rightarrow> w
      | i # rest \<Rightarrow> processFrame parse False fr (w\<lparr>frames := rest\<rparr>))"

definition hookRun :: "(string \<Rightarrow> json option) \<Rightarrow> hookEvent list \<Rightarrow> hook \<Rightarrow> hook" where
  "hookRun parse evs w = foldl (\<lambda>w' e. hookStep parse e w') w evs"

text \<open>
  A run in which the host calls \<open>startScanner\<close> only while the hook holds no stream and no
  \<open>getUserMedia\<close> is pending, that is, after a release or a failed start.
\<close>

fun disciplined :: "(string \<Rightarrow> json option) \<Rightarrow> hookEvent list \<Rightarrow> hook \<Rightarrow> bool" where
  "disciplined parse [] w = True"
| "disciplined parse (e # es) w =
     ((e = StartScanner \<longrightarrow> streamRef w = None \<and> pendingStarts w = 0)
      \<and> disciplined parse es (hookStep parse e w))"

text \<open>Every active stream is the one in \<open>streamRef\<close>, and a pending \<open>getUserMedia\<close> is the only
  one and finds no stream held.\<close>

definition tracked :: "hook \<Rightarrow> bool" where
  "tracked w =
     ((\<forall>i \<in> set (activeStreams w). streamRef w = Some i)
      \<and> pendingStarts w \<le> 1
      \<and> (0 < pendingStarts w \<longrightarrow> streamRef w = None))"

subsection \<open>The \<open>Webcam\<close> element of the camera scanner\<close>

text \<open>
  The camera scanner holds no stream itself: its \<open>Webcam\<close> element does, and it is the
  element that reacts to a new \<open>facingMode\<close> in its \<open>videoConstraints\<close>.
\<close>

record webcam =
  videoConstraints :: string
  userMedia :: "nat option"
  w_media :: "bool list list"

text \<open>
  Modelled from the spec: the \<open>Webcam\<close> element is the \<open>react-webcam\<close> component, whose code
  is not among the sources. The spec says of \<open>switchFacing()\<close>: "toggles between front/back
  camera by re-requesting access with the opposite facing mode; must release the previous
  stream before acquiring the new one (no two simultaneous streams)". So on constraints
  that differ from the ones it has, the element stops the tracks of the stream it holds
  and requests a stream; \<open>gum\<close> is the outcome of that request.
\<close>

definition webcamUpdate :: "string \<Rightarrow> string + nat \<Rightarrow> webcam \<Rightarrow> webcam" where
  "webcamUpdate fm gum wc =
     (if fm = videoConstraints wc then wc
      else
        (let m1 = (case userMedia wc of
                     None \<Rightarrow> w_media wc
                   | Some sid \<Rightarrow> stopTracks sid (w_media wc))
         in case gum of
              Inl msg \<Rightarrow> wc\<lparr>videoConstraints := fm, userMedia := None, w_media := m1\<rparr>
            | Inr n \<Rightarrow>
                wc\<lparr>videoConstraints := fm, userMedia := Some (length m1),
                   w_media := m1 @ [replicate n True]\<rparr>))"

section \<open>The camera scanner (\<open>QRScanner\<close> of \<open>components/scanner\<close>)\<close>

text \<open>
  The component's state variables and references, the browser's side of them, and what the
  component emits. A timer, a pending image, a pending timeout and a pending submission
  each remember which \<open>captureAndProcessFrame\<close> they came from (see the closures below).

  \<^item> \<open>intervals\<close>: the live \<open>setInterval\<close> timers, each a positive handle;
  \<^item> \<open>images\<close>: the images whose \<open>onload\<close> has not fired yet;
  \<^item> \<open>timeouts\<close>: the pending \<open>setTimeout\<close> callbacks with their delay in milliseconds;
  \<^item> \<open>inflight\<close>: the calls of \<open>qrCodeService.markAttendance\<close> that have not settled, with
    their payload;
  \<^item> \<open>permissionChecks\<close>: the calls of \<open>checkCameraPermission\<close> whose \<open>getUserMedia\<close> has
    not settled;
  \<^item> \<open>toasts\<close>, \<open>console\<close>, \<open>scanErrors\<close> (the calls of \<open>onScanError\<close>) and \<open>scanSuccesses\<close>
    (the calls of \<open>onScanSuccess\<close>): what the user and the host page see.
\<close>

record scanner =
  scanning :: bool
  loading :: bool
  error :: "json option"
  cameraPermission :: "bool option"
  facingMode :: string
  availableCameras :: nat
  canvasRef :: bool
  intervalRef :: "nat option"
  startMemos :: "(bool option \<times> nat) list"
  cpfMemos :: "nat list"
  intervals :: "(nat \<times> nat) list"
  timerCount :: nat
  images :: "nat list"
  timeouts :: "(nat \<times> nat) list"
  inflight :: "(json \<times> nat) list"
  permissionChecks :: nat
  toasts :: "effect list"
  console :: "string list"
  scanErrors :: "jsError list"
  scanSuccesses :: "json list"

text \<open>
  Closures. A function of the component reads the variables of the render that created
  it. Only \<open>startScanning\<close> reads a state variable directly (\<open>cameraPermission\<close>); it is
  memoised on \<open>[cameraPermission]\<close>, and \<open>captureAndProcessFrame\<close> on
  \<open>[stopScanning, onScanError]\<close>. So React keeps

  \<^item> one \<open>startScanning\<close> per change of \<open>cameraPermission\<close>: entry \<open>g\<close> of \<open>startMemos\<close> is
    the permission that function sees and the \<open>captureAndProcessFrame\<close> (an index of
    \<open>cpfMemos\<close>) that its timer will call;
  \<^item> one \<open>captureAndProcessFrame\<close> per change of the \<open>onScanError\<close> property: entry \<open>c\<close> of
    \<open>cpfMemos\<close> is the \<open>startScanning\<close> (an index of \<open>startMemos\<close>) that the
    \<open>handleQRCodeDetected\<close> of its render calls.

  The effect on \<open>[cameraPermission]\<close> and the buttons call the newest \<open>startScanning\<close>.
\<close>

definition currentStart :: "scanner \<Rightarrow> nat" where
  "currentStart s = length (startMemos s) - 1"

definition currentCpf :: "scanner \<Rightarrow> nat" where
  "currentCpf s = length (cpfMemos s) - 1"

text \<open>The \<open>Webcam\<close> element is rendered, and \<open>webcamRef.current\<close> set, unless the permission
  is \<open>false\<close>.\<close>

definition webcamRef :: "scanner \<Rightarrow> bool" where
  "webcamRef s = (cameraPermission s \<noteq> Some False)"

text \<open>\<open>checkCameraPermission\<close> up to its \<open>await\<close>: one more probe of \<open>getUserMedia\<close>.\<close>

definition checkCameraPermission :: "scanner \<Rightarrow> scanner" where
  "checkCameraPermission s = s\<lparr>permissionChecks := Suc (permissionChecks s)\<rparr>"

text \<open>\<open>setCameraPermission(v)\<close>: a change re-renders and replaces \<open>startScanning\<close>.\<close>

definition setCameraPermission :: "bool \<Rightarrow> scanner \<Rightarrow> scanner" where
  "setCameraPermission v s =
     (if cameraPermission s = Some v then s
      else s\<lparr>cameraPermission := Some v,
             startMemos := startMemos s @ [(Some v, currentCpf s)]\<rparr>)"

text \<open>\<open>startScanning\<close>, the one of generation \<open>g\<close>.\<close>

definition startScanning :: "nat \<Rightarrow> scanner \<Rightarrow> scanner" where
  "startScanning g s =
     (case startMemos s ! g of
        (permission, c) \<Rightarrow>
          if permission \<noteq> Some True then checkCameraPermission s
          else
            s\<lparr>scanning := True, error := None,
              intervalRef := Some (Suc (timerCount s)),
              intervals := intervals s @ [(Suc (timerCount s), c)],
              timerCount := Suc (timerCount s)\<rparr>)"

definition stopScanning :: "scanner \<Rightarrow> scanner" where
  "stopScanning s =
     (let s1 = (case intervalRef s of
                  None \<Rightarrow> s
                | Some h \<Rightarrow>
                    if h \<noteq> 0
                    then s\<lparr>intervals := filter (\<lambda>(h', c). h' \<noteq> h) (intervals s),
                           intervalRef := None\<rparr>
                    else s)
      in s1\<lparr>scanning := False\<rparr>)"

definition toggleCamera :: "scanner \<Rightarrow> scanner" where
  "toggleCamera s =
     s\<lparr>facingMode := (if facingMode s = ''environment'' then ''user'' else ''environment'')\<rparr>"

text \<open>What \<open>webcam.getScreenshot()\<close> gives on a tick: \<open>null\<close> while the video has no frame, an
  exception, or a data URL.\<close>

datatype screenshot = NoScreenshot | ScreenshotThrows string | Screenshot

text \<open>
  \<open>captureAndProcessFrame\<close>, the one of generation \<open>c\<close>, as far as it runs on the tick: it
  leaves an image loading, whose \<open>onload\<close> does the rest.
\<close>

definition captureAndProcessFrame :: "nat \<Rightarrow> screenshot \<Rightarrow> scanner \<Rightarrow> scanner" where
  "captureAndProcessFrame c shot s =
     (if \<not> webcamRef s \<or> \<not> canvasRef s then s
      else case shot of
        NoScreenshot \<Rightarrow> s
      | ScreenshotThrows msg \<Rightarrow>
          s\<lparr>console := console s @ [''Error processing frame:''],
            error := Some (JStr (''Error capturing camera frame: '' @ msg)),
            scanErrors := scanErrors s @ [Error msg]\<rparr>
      | Screenshot \<Rightarrow> s\<lparr>images := images s @ [c]\<rparr>)"

text \<open>The inner \<open>catch\<close> of \<open>processImageData\<close>, for an error with a message that is not
  empty.\<close>

definition rejectCode :: "string \<Rightarrow> scanner \<Rightarrow> scanner" where
  "rejectCode msg s =
     s\<lparr>console := console s @ [''Error processing QR code data:''],
       error := Some (JStr msg),
       scanErrors := scanErrors s @ [Error msg],
       toasts := toasts s @ [ToastError (JStr msg)]\<rparr>"

text \<open>\<open>processImageData\<close>: the payload it returns (\<open>None\<close> for \<open>null\<close>) and the state. The
  canvas is read by its caller, so \<open>CanvasThrows\<close> never reaches it.\<close>

definition processImageData ::
  "(string \<Rightarrow> json option) \<Rightarrow> decode \<Rightarrow> scanner \<Rightarrow> json option \<times> scanner" where
  "processImageData parse d s =
     (case d of
        Code txt \<Rightarrow>
          (let s1 = s\<lparr>console := console s @ [''QR Code detected:'']\<rparr> in
           case parse txt of
             None \<Rightarrow>
               (None,
                rejectCode ''Invalid QR code format. Please scan a valid QR code.''
                  (s1\<lparr>console := console s1 @ [''Failed to parse QR code data:'']\<rparr>))
           | Some qrData \<Rightarrow>
               if \<not> truthy qrData \<or> \<not> truthyVal (getProp qrData ''indexNumber'')
               then (None, rejectCode ''Invalid QR code data. Missing required information.'' s1)
               else (Some qrData, s1))
      | NoCode \<Rightarrow> (None, s)
      | DecoderThrows msg \<Rightarrow>
          (None,
           s\<lparr>console := console s @ [''Error in QR code processing:''],
             error := Some (JStr (''QR code processing error: '' @ msg)),
             scanErrors := scanErrors s @ [Error msg]\<rparr>)
      | CanvasThrows msg \<Rightarrow> (None, s))"

text \<open>
  \<open>handleQRCodeDetected\<close> is asynchronous: it runs to the \<open>await\<close> of
  \<open>qrCodeService.markAttendance\<close>, which leaves a submission in flight, and resumes when
  that settles. \<open>attendanceFailed\<close> is its \<open>catch\<close> followed by its \<open>finally\<close>; the restart
  it schedules calls the \<open>startScanning\<close> of its own render.
\<close>

definition errorMessage :: "jsError \<Rightarrow> json" where
  "errorMessage err =
     (case response err of
        None \<Rightarrow> JStr ''Failed to mark attendance''
      | Some r \<Rightarrow>
          if status r = 404 then JStr ''Student not found in the database''
          else if status r = 409 then JStr ''Attendance already marked for this student today''
          else orElse (getPropOpt (data r) ''message'') ''Failed to mark attendance'')"

definition attendanceFailed :: "nat \<Rightarrow> jsError \<Rightarrow> scanner \<Rightarrow> scanner" where
  "attendanceFailed c err s =
     s\<lparr>console := console s @ [''Error marking attendance:''],
       error := Some (errorMessage err),
       toasts := toasts s @ [ToastError (errorMessage err)],
       scanErrors := scanErrors s @ [err],
       timeouts := timeouts s @ [(3000, c)],
       loading := False\<rparr>"

definition handleQRCodeDetected :: "nat \<Rightarrow> json \<Rightarrow> scanner \<Rightarrow> scanner" where
  "handleQRCodeDetected c qrData s =
     (let s1 = s\<lparr>loading := True\<rparr> in
      if \<not> truthy qrData \<or> \<not> truthyVal (getProp qrData ''indexNumber'')
      then attendanceFailed c (Error ''Invalid QR code data. Missing student information.'') s1
      else s1\<lparr>inflight := inflight s1 @ [(qrData, c)]\<rparr>)"

text \<open>The object handed to \<open>onScanSuccess\<close>.\<close>

definition scanResult :: "date \<Rightarrow> json \<Rightarrow> json \<Rightarrow> json" where
  "scanResult now qrData dat =
     JObj (AList.update ''timestamp''
             (orElse (getProp dat ''timestamp'') (toISOString now))
             (AList.update ''status'' (orElse (getProp dat ''status'') ''present'')
                (spread qrData)))"

definition attendanceSettled ::
  "date \<Rightarrow> jsError + response \<Rightarrow> json \<times> nat \<Rightarrow> scanner \<Rightarrow> scanner" where
  "attendanceSettled now res sub s =
     (case sub of
        (qrData, c) \<Rightarrow>
          (case res of
             Inl err \<Rightarrow> attendanceFailed c err s
           | Inr r \<Rightarrow>
               (case data r of
                  None \<Rightarrow> attendanceFailed c (Error ''Invalid response from server'') s
                | Some dat \<Rightarrow>
                    if \<not> truthy dat
                    then attendanceFailed c (Error ''Invalid response from server'') s
                    else
                      s\<lparr>toasts := toasts s @
                           [ToastSuccess
                              (orElse (getProp dat ''message'') ''Attendance marked successfully'')],
                        scanSuccesses := scanSuccesses s @ [scanResult now qrData dat],
                        loading := False\<rparr>)))"

text \<open>The \<open>onload\<close> of an image created by the \<open>captureAndProcessFrame\<close> of generation \<open>c\<close>.\<close>

definition imageLoaded ::
  "(string \<Rightarrow> json option) \<Rightarrow> nat \<Rightarrow> decode \<Rightarrow> scanner \<Rightarrow> scanner" where
  "imageLoaded parse c d s =
     (case d of
        CanvasThrows msg \<Rightarrow>
          s\<lparr>console := console s @ [''Error processing image:''],
            error := Some (JStr (''Error processing camera image: '' @ msg)),
            scanErrors := scanErrors s @ [Error msg]\<rparr>
      | _ \<Rightarrow>
          (case processImageData parse d s of
             (None, s1) \<Rightarrow> s1
           | (Some qrData, s1) \<Rightarrow> handleQRCodeDetected c qrData (stopScanning s1)))"

text \<open>The callback of the timeout that \<open>attendanceFailed\<close> schedules.\<close>

definition restart :: "nat \<Rightarrow> scanner \<Rightarrow> scanner" where
  "restart c s = startScanning (cpfMemos s ! c) (s\<lparr>error := None\<rparr>)"

text \<open>\<open>checkCameraPermission\<close> after its \<open>await\<close>. When the permission becomes \<open>true\<close> the
  effect on \<open>[cameraPermission]\<close> starts the scanning.\<close>

definition permissionGranted :: "scanner \<Rightarrow> scanner" where
  "permissionGranted s =
     (let s1 = (setCameraPermission True s)\<lparr>error := None\<rparr> in
      if cameraPermission s \<noteq> Some True then startScanning (currentStart s1) s1 else s1)"

definition permissionDenied :: "scanner \<Rightarrow> scanner" where
  "permissionDenied s =
     (setCameraPermission False s)
       \<lparr>console := console s @ [''Camera permission error:''],
        error := Some (JStr ''Camera access denied. Please allow camera access to scan QR codes.''),
        scanErrors := scanErrors s @ [Error ''Camera access denied''],
        toasts := toasts s @
          [ToastError
             (JStr ''Camera access denied. Please allow camera access in your browser settings.'')]\<rparr>"

text \<open>\<open>getAvailableCameras\<close> after its \<open>await\<close>: enumerating the devices fails with a
  message, or finds so many video inputs.\<close>

definition getAvailableCameras :: "string + nat \<Rightarrow> scanner \<Rightarrow> scanner" where
  "getAvailableCameras r s =
     (case r of
        Inl msg \<Rightarrow>
          s\<lparr>console := console s @ [''Error getting cameras:''],
            error := Some (JStr (''Failed to detect cameras: '' @ msg)),
            scanErrors := scanErrors s @ [Error msg]\<rparr>
      | Inr n \<Rightarrow>
          (let s1 = s\<lparr>availableCameras := n\<rparr> in
           if n = 0
           then (setCameraPermission False s1)
                  \<lparr>error := Some (JStr ''No cameras found on your device''),
                   scanErrors := scanErrors s1 @ [Error ''No cameras found''],
                   toasts := toasts s1 @ [ToastError (JStr ''No cameras found on your device'')]\<rparr>
           else s1))"

text \<open>The \<open>onUserMediaError\<close> of the \<open>Webcam\<close> element.\<close>

definition onUserMediaError :: "string \<Rightarrow> scanner \<Rightarrow> scanner" where
  "onUserMediaError msg s =
     (setCameraPermission False s)
       \<lparr>console := console s @ [''Webcam error:''],
        error := Some (JStr (''Error accessing camera: '' @ msg)),
        scanErrors := scanErrors s @ [Error msg]\<rparr>"

text \<open>
  What can happen to the mounted component: a permission probe settles, the device
  enumeration settles, the \<open>Webcam\<close> reports an error, the host page passes a new
  \<open>onScanError\<close>, the user presses a button that is shown (Scan Again, Try Again, the camera
  toggle), the timer with a given handle ticks, the oldest loading image loads, the oldest
  submission in flight settles, the oldest timeout fires. A cleared timer never ticks.
\<close>

datatype event =
    PermissionResult bool
  | CamerasResult "string + nat"
  | WebcamError string
  | PropsChange
  | ScanAgain
  | TryAgain
  | ToggleCamera
  | Tick nat screenshot
  | ImageLoads decode
  | Settles "jsError + response"
  | TimeoutFires

fun step :: "(string \<Rightarrow> json option) \<Rightarrow> date \<Rightarrow> event \<Rightarrow> scanner \<Rightarrow> scanner" where
  "step parse now (PermissionResult ok) s =
     (if permissionChecks s = 0 then s
      else if ok then permissionGranted (s\<lparr>permissionChecks := permissionChecks s - 1\<rparr>)
      else permissionDenied (s\<lparr>permissionChecks := permissionChecks s - 1\<rparr>))"
| "step parse now (CamerasResult r) s = getAvailableCameras r s"
| "step parse now (WebcamError msg) s = (if webcamRef s then onUserMediaError msg s else s)"
| "step parse now PropsChange s = s\<lparr>cpfMemos := cpfMemos s @ [currentStart s]\<rparr>"
| "step parse now ScanAgain s =
     (if \<not> scanning s \<and> \<not> loading s \<and> \<not> truthyVal (error s)
      then startScanning (currentStart s) s else s)"
| "step parse now TryAgain s =
     (if cameraPermission s = Some False then checkCameraPermission s else s)"
| "step parse now ToggleCamera s =
     (if webcamRef s \<and> 1 < availableCameras s then toggleCamera s else s)"
| "step parse now (Tick h shot) s =
     (case map_of (intervals s) h of
        None \<Rightarrow> s
      | Some c \<Rightarrow> captureAndProcessFrame c shot s)"
| "step parse now (ImageLoads d) s =
     (case images s of
        [] \<Rightarrow> s
      | c # rest \<Rightarrow> imageLoaded parse c d (s\<lparr>images := rest\<rparr>))"
| "step parse now (Settles res) s =
     (case inflight s of
        [] \<Rightarrow> s
      | sub # rest \<Rightarrow> attendanceSettled now res sub (s\<lparr>inflight := rest\<rparr>))"
| "step parse now TimeoutFires s =
     (case timeouts s of
        [] \<Rightarrow> s
      | (ms, c) # rest \<Rightarrow> restart c (s\<lparr>timeouts := rest\<rparr>))"

definition run :: "(string \<Rightarrow> json option) \<Rightarrow> date \<Rightarrow> event list \<Rightarrow> scanner \<Rightarrow> scanner" where
  "run parse now evs s = foldl (\<lambda>s' e. step parse now e s') s evs"

text \<open>
  The component after its first render and its mount effects: \<open>cameraPermission\<close> is
  \<open>null\<close>, the first \<open>startScanning\<close> and \<open>captureAndProcessFrame\<close> exist and refer to each
  other, and \<open>checkCameraPermission\<close> has been called once.
\<close>

definition scanner0 :: scanner where
  "scanner0 =
     \<lparr>scanning = False, loading = False, error = None, cameraPermission = None,
      facingMode = ''environment'', availableCameras = 0, canvasRef = True,
      intervalRef = None, startMemos = [(None, 0)], cpfMemos = [0], intervals = [],
      timerCount = 0, images = [], timeouts = [], inflight = [], permissionChecks = 1,
      toasts = [], console = [], scanErrors = [], scanSuccesses = []\<rparr>"

section \<open>The normalised outcome of a submission\<close>

text \<open>
  \<open>processedData\<close>, built the same way by \<open>DigitalQRScanner.handleQRCodeDetected\<close> and by
  \<open>handleScan\<close> from the body \<open>dat\<close> of the response (a truthy value) and the payload.
\<close>

record processedData =
  p_id :: jsval
  p_indexNumber :: jsval
  p_name :: jsval
  p_status :: jsval
  p_timestamp :: string
  p_messageStatus :: jsval
  p_parent_telephone :: jsval
  p_student_email :: jsval
  p_address :: jsval

definition processResponse :: "date \<Rightarrow> json \<Rightarrow> json \<Rightarrow> processedData" where
  "processResponse now dat qrData =
     (let studentInfo = getProp dat ''studentInfo''; student = getProp dat ''student'' in
      \<lparr>p_id = getPropOpt studentInfo ''id'',
       p_indexNumber = jsOr (getPropOpt studentInfo ''indexNumber'') (getProp qrData ''indexNumber''),
       p_name = jsOr (getPropOpt studentInfo ''name'') (getProp qrData ''name''),
       p_status = jsOr (getProp dat ''attendanceStatus'') (Some (JStr ''entered'')),
       p_timestamp = toISOString now,
       p_messageStatus =
         jsOr (jsOr (getPropOpt studentInfo ''messageStatus'') (getProp dat ''messageStatus''))
           (Some (JStr ''pending'')),
       p_parent_telephone =
         jsOr (getPropOpt studentInfo ''parent_telephone'') (getProp qrData ''parent_telephone''),
       p_student_email =
         jsOr (jsOr (getPropOpt studentInfo ''student_email'') (getPropOpt student ''student_email''))
           (Some (JStr [])),
       p_address =
         jsOr (jsOr (getPropOpt studentInfo ''address'') (getPropOpt student ''address''))
           (Some (JStr []))\<rparr>)"

text \<open>\<^verbatim>\<open>error.message || fallback\<close>\<close>

definition messageOr :: "jsError \<Rightarrow> string \<Rightarrow> string" where
  "messageOr err d = (if message err = [] then d else message err)"

section \<open>The image scanner (\<open>DigitalQRScanner\<close>)\<close>

record digital =
  d_loading :: bool
  d_error :: "string option"
  d_apiError :: "string option"
  d_processingStatus :: string
  d_previewUrl :: "string option"
  d_fileInfo :: bool
  d_requests :: "json list"
  d_toasts :: "effect list"
  d_console :: "string list"
  d_scanErrors :: "jsError list"
  d_scanSuccesses :: "processedData list"

text \<open>The \<open>catch\<close> of its \<open>handleQRCodeDetected\<close>.\<close>

definition digitalFailed :: "jsError \<Rightarrow> digital \<Rightarrow> digital" where
  "digitalFailed err s =
     s\<lparr>d_console := d_console s @ [''Error processing QR code:''],
       d_loading := False,
       d_apiError := Some (messageOr err ''Failed to process attendance''),
       d_toasts := d_toasts s @ [ToastError (JStr (messageOr err ''Failed to process attendance''))],
       d_scanErrors := d_scanErrors s @ [err]\<rparr>"

text \<open>Its \<open>handleQRCodeDetected\<close> up to the \<open>await\<close>: a call of \<open>markAttendance\<close> is recorded
  in \<open>d_requests\<close>. Reading \<open>indexNumber\<close> of \<open>null\<close> throws inside the \<open>try\<close>.\<close>

definition digitalDetected :: "json \<Rightarrow> digital \<Rightarrow> digital" where
  "digitalDetected qrData s =
     (let s1 = s\<lparr>d_console := d_console s @ [''Processing QR data:'']\<rparr> in
      if qrData = JNull
      then digitalFailed (Error ''Cannot read properties of null (reading 'indexNumber')'') s1
      else if \<not> truthyVal (getProp qrData ''indexNumber'')
      then digitalFailed (Error ''Invalid QR code data. Missing student index number.'') s1
      else s1\<lparr>d_processingStatus := ''Marking attendance...'',
              d_requests := d_requests s1 @ [qrData]\<rparr>)"

text \<open>
  \<open>resetScanner\<close> is memoised on \<open>[previewUrl]\<close>: the preview it tests, and revokes, is the
  one of the render that created the callback, the argument \<open>pv\<close>.
\<close>

definition resetScanner :: "string option \<Rightarrow> digital \<Rightarrow> digital" where
  "resetScanner pv s =
     (let s1 = s\<lparr>d_error := None, d_apiError := None, d_processingStatus := [],
                  d_loading := False, d_fileInfo := False\<rparr>
      in case pv of
           None \<Rightarrow> s1
         | Some u \<Rightarrow> if u \<noteq> [] then s1\<lparr>d_previewUrl := None\<rparr> else s1)"

text \<open>Its \<open>handleQRCodeDetected\<close> after the \<open>await\<close>; \<open>pv\<close> is the preview that the
  \<open>resetScanner\<close> it calls has captured.\<close>

definition digitalSettled ::
  "string option \<Rightarrow> date \<Rightarrow> jsError + response \<Rightarrow> json \<Rightarrow> digital \<Rightarrow> digital" where
  "digitalSettled pv now res qrData s =
     (case res of
        Inl err \<Rightarrow> digitalFailed err s
      | Inr r \<Rightarrow>
          (let s1 = s\<lparr>d_console := d_console s @ [''API response:'']\<rparr> in
           case data r of
             None \<Rightarrow> digitalFailed (Error ''Invalid response from server'') s1
           | Some dat \<Rightarrow>
               if \<not> truthy dat then digitalFailed (Error ''Invalid response from server'') s1
               else
                 resetScanner pv
                   (s1\<lparr>d_scanSuccesses := d_scanSuccesses s1 @ [processResponse now dat qrData],
                       d_toasts := d_toasts s1 @
                         [ToastSuccess
                            (orElse (getProp dat ''message'') ''Attendance marked successfully'')]\<rparr>)))"

text \<open>
  \<open>detectQRCode\<close>. \<^verbatim>\<open>new URL(text)\<close> is the argument \<open>parseUrl\<close>: \<open>None\<close> where it throws,
  otherwise what \<open>searchParams.get\<close> answers (\<open>None\<close> for \<open>null\<close>). The canvas is read by its
  caller \<open>processImage\<close>, so \<open>CanvasThrows\<close> never reaches it.
\<close>

definition unrecognized :: "digital \<Rightarrow> digital" where
  "unrecognized s =
     s\<lparr>d_console := d_console s @ [''Failed to process QR code data:''],
       d_loading := False,
       d_error := Some
         ''QR code found but data format is not recognized. Please try a different QR code.''\<rparr>"

definition detectQRCode ::
  "(string \<Rightarrow> json option) \<Rightarrow> (string \<Rightarrow> (string \<Rightarrow> string option) option) \<Rightarrow> decode
     \<Rightarrow> digital \<Rightarrow> digital" where
  "detectQRCode parse parseUrl d s =
     (case d of
        Code txt \<Rightarrow>
          (let s1 = s\<lparr>d_console := d_console s @ [''QR Code detected:''],
                      d_processingStatus := ''QR code found! Verifying...''\<rparr> in
           case parse txt of
             Some qrData \<Rightarrow> digitalDetected qrData s1
           | None \<Rightarrow>
               if jsIncludes txt ''indexNumber='' then
                 (case parseUrl txt of
                    None \<Rightarrow> unrecognized s1
                  | Some searchParams \<Rightarrow>
                      (case searchParams ''indexNumber'' of
                         None \<Rightarrow> unrecognized s1
                       | Some indexNumber \<Rightarrow>
                           if indexNumber = [] then unrecognized s1
                           else
                             digitalDetected
                               (JObj [(''indexNumber'', JStr indexNumber),
                                      (''name'',
                                       case searchParams ''name'' of
                                         None \<Rightarrow> JNull
                                       | Some n \<Rightarrow> JStr n)])
                               s1))
               else digitalDetected (JObj [(''rawData'', JStr txt)]) s1)
      | NoCode \<Rightarrow>
          s\<lparr>d_loading := False,
            d_error := Some
              ''No QR code found in the image. Please try a different image with a clearer QR code.''\<rparr>
      | DecoderThrows msg \<Rightarrow>
          s\<lparr>d_console := d_console s @ [''Error processing QR code:''],
            d_loading := False,
            d_error := Some (''Error processing image: '' @ msg
                             @ ''. Please try a different image.'')\<rparr>
      | CanvasThrows msg \<Rightarrow> s)"

section \<open>The reader-based scanner (\<open>QRScanner\<close> of \<open>components\<close>)\<close>

record reader =
  r_hasPermission :: "bool option"
  r_loading :: bool
  r_error :: "string option"
  r_scannedData :: "processedData option"
  r_scanning :: bool
  r_requests :: "json list"
  r_toasts :: "effect list"
  r_console :: "string list"
  r_scanErrors :: "jsError list"
  r_scanSuccesses :: "processedData list"

text \<open>The \<open>catch\<close> and the \<open>finally\<close> of \<open>handleScan\<close>.\<close>

definition readerFailed :: "jsError \<Rightarrow> reader \<Rightarrow> reader" where
  "readerFailed err s =
     s\<lparr>r_console := r_console s @ [''Error processing QR code:''],
       r_error := Some (messageOr err ''Failed to process QR code''),
       r_toasts := r_toasts s @ [ToastError (JStr (messageOr err ''Failed to process QR code''))],
       r_scanErrors := r_scanErrors s @ [err],
       r_loading := False\<rparr>"

text \<open>
  \<open>handleScan\<close> up to the \<open>await\<close>. \<open>dat\<close> is the text of the result the reader reports
  (\<open>None\<close> when it reports none), and \<open>ld\<close> the \<open>loading\<close> of the render whose \<open>handleScan\<close>
  the reader calls.
\<close>

definition handleScan :: "bool \<Rightarrow> (string \<Rightarrow> json option) \<Rightarrow> string option \<Rightarrow> reader \<Rightarrow> reader" where
  "handleScan ld parse dat s =
     (case dat of
        None \<Rightarrow> s
      | Some txt \<Rightarrow>
          if ld then s
          else
            (let s1 = s\<lparr>r_loading := True, r_console := r_console s @ [''QR code scanned:'']\<rparr> in
             case parse txt of
               None \<Rightarrow>
                 readerFailed
                   (Error ''Invalid QR code format. Please scan a valid student QR code.'') s1
             | Some qrData \<Rightarrow>
                 if qrData = JNull
                 then readerFailed
                        (Error ''Cannot read properties of null (reading 'indexNumber')'') s1
                 else if \<not> truthyVal (getProp qrData ''indexNumber'')
                         \<or> \<not> truthyVal (getProp qrData ''name'')
                 then readerFailed
                        (Error ''Invalid QR code. Missing required student information.'') s1
                 else if \<not> truthyVal (getProp qrData ''parent_telephone'')
                 then s1\<lparr>r_requests := r_requests s1 @
                            [JObj (AList.update ''parent_telephone'' (JStr []) (spread qrData))]\<rparr>
                 else s1\<lparr>r_requests := r_requests s1 @ [qrData]\<rparr>))"

text \<open>The text of the success toast: \<open>name\<close> as a template string prints it.\<close>

definition recordedText :: "(int \<Rightarrow> string) \<Rightarrow> processedData \<Rightarrow> string" where
  "recordedText numText pd =
     (case p_name pd of None \<Rightarrow> ''undefined'' | Some n \<Rightarrow> jsToString numText n)
     @ [CHR 0x27] @ ''s attendance ''
     @ (if p_status pd = Some (JStr ''left'') then ''exit'' else ''entry'')
     @ '' recorded!''"

text \<open>\<open>handleScan\<close> after the \<open>await\<close>.\<close>

definition handleScanSettled ::
  "(int \<Rightarrow> string) \<Rightarrow> date \<Rightarrow> jsError + response \<Rightarrow> json \<Rightarrow> reader \<Rightarrow> reader" where
  "handleScanSettled numText now res qrData s =
     (case res of
        Inl err \<Rightarrow> readerFailed err s
      | Inr r \<Rightarrow>
          (let s1 = s\<lparr>r_console := r_console s @ [''API response:'']\<rparr> in
           case data r of
             None \<Rightarrow> readerFailed (Error ''Invalid response from server'') s1
           | Some dat \<Rightarrow>
               if \<not> truthy dat then readerFailed (Error ''Invalid response from server'') s1
               else
                 (let pd = processResponse now dat qrData in
                  s1\<lparr>r_scannedData := Some pd,
                     r_toasts := r_toasts s1 @ [ToastSuccess (JStr (recordedText numText pd))],
                     r_scanSuccesses := r_scanSuccesses s1 @ [pd],
                     r_scanning := False,
                     r_loading := False\<rparr>)))"


section \<open>Sample inputs\<close>

text \<open>Concrete inputs at which the properties below are evaluated. \<open>sampleHook\<close> is the hook
  after a start that has settled with a stream of two tracks, and one requested frame.\<close>

definition sampleHook :: hook where
  "sampleHook = requestAnimationFrame (startScannerSettled (Inr 2) (startScanner hook0))"

text \<open>A \<open>Webcam\<close> element that shows the back camera through a stream of one track.\<close>

definition sampleWebcam :: webcam where
  "sampleWebcam = \<lparr>videoConstraints = ''environment'', userMedia = Some 0, w_media = [[True]]\<rparr>"

text \<open>
  Two texts a symbol may carry and what \<^verbatim>\<open>JSON.parse\<close> makes of them: a student record, and
  a record without index number. \<open>sampleParse\<close> is \<^verbatim>\<open>JSON.parse\<close> on these texts and on the
  texts below that are not JSON (a bare identifier, a URL), where it throws.
\<close>

definition validText :: string where
  "validText = ''{\"indexNumber\":\"S1\",\"name\":\"Ann\"}''"

definition anonymousText :: string where
  "anonymousText = ''{\"name\":\"Ann\"}''"

definition urlText :: string where
  "urlText = ''https://school.example/scan?indexNumber=S1&name=Ann''"

definition sampleParse :: "string \<Rightarrow> json option" where
  "sampleParse t =
     (if t = validText then Some (JObj [(''indexNumber'', JStr ''S1''), (''name'', JStr ''Ann'')])
      else if t = anonymousText then Some (JObj [(''name'', JStr ''Ann'')])
      else None)"

text \<open>\<^verbatim>\<open>new URL(text).searchParams.get\<close> on \<open>urlText\<close>; the other sample texts are no URLs.\<close>

definition sampleUrl :: "string \<Rightarrow> (string \<Rightarrow> string option) option" where
  "sampleUrl t =
     (if t = urlText then Some (map_of [(''indexNumber'', ''S1''), (''name'', ''Ann'')]) else None)"

definition sampleNow :: date where
  "sampleNow = \<lparr>year = 2024, month = 3, day = 5, hours = 9, minutes = 7, seconds = 1,
                milliseconds = 42\<rparr>"

text \<open>The image scanner while it processes an uploaded image.\<close>

definition digital0 :: digital where
  "digital0 =
     \<lparr>d_loading = True, d_error = None, d_apiError = None,
      d_processingStatus = ''Scanning for QR code...'', d_previewUrl = Some ''blob:1'',
      d_fileInfo = True, d_requests = [], d_toasts = [], d_console = [], d_scanErrors = [],
      d_scanSuccesses = []\<rparr>"

text \<open>The camera scanner after the permission was granted and the first tick has left an
  image loading.\<close>

definition scanning1 :: scanner where
  "scanning1 = run sampleParse sampleNow [PermissionResult True, Tick 1 Screenshot] scanner0"

text \<open>The reader-based scanner while it scans.\<close>

definition reader0 :: reader where
  "reader0 =
     \<lparr>r_hasPermission = Some True, r_loading = False, r_error = None, r_scannedData = None,
      r_scanning = True, r_requests = [], r_toasts = [], r_console = [], r_scanErrors = [],
      r_scanSuccesses = []\<rparr>"

text \<open>
  Two success bodies of the endpoint for a student: the one its interface documents
  (\<open>studentInfo\<close>, \<open>attendanceStatus\<close>, \<open>message\<close>) for a student who entered, and one that
  carries a \<open>status\<close> next to a different \<open>attendanceStatus\<close>.
\<close>

definition documentedBody :: json where
  "documentedBody =
     JObj [(''studentInfo'',
            JObj [(''id'', JStr ''42''), (''indexNumber'', JStr ''S1''), (''name'', JStr ''Ann'')]),
           (''attendanceStatus'', JStr ''entered''),
           (''message'', JStr ''Attendance marked'')]"

definition twoStatusBody :: json where
  "twoStatusBody =
     JObj [(''status'', JStr ''entered''), (''attendanceStatus'', JStr ''left''),
           (''message'', JStr ''Attendance marked'')]"

text \<open>A healthy probe, a token store, a network that accepts the request, a payload whose
  telephone number has blanks, and the request that payload leaves as.\<close>

definition okProbe :: probe where
  "okProbe = ProbeAnswers 200 (Some (JObj [(''status'', JStr ''ok'')]))"

definition sampleStorage :: storage where
  "sampleStorage = \<lparr>localToken = None, sessionToken = Some ''t0''\<rparr>"

definition acceptNet :: net where
  "acceptNet = NetAnswers \<lparr>status = 200, data = Some (JObj [(''attendanceStatus'', JStr ''entered'')]),
       url = ''/students/mark-attendance'', retryAfter = None\<rparr>"

definition spacedPayload :: json where
  "spacedPayload = JObj [(''indexNumber'', JStr ''S1''), (''name'', JStr ''Ann''), (''parent_telephone'', JStr ''077 123 4567'')]"


text \<open>The rejection of a submission with HTTP 409.\<close>

definition conflict :: jsError where
  "conflict =
     \<lparr>message = ''Request failed with status code 409'',
      response = Some \<lparr>status = 409,
                        data = Some (JObj [(''message'', JStr ''Attendance already marked today'')]),
                        url = ''/students/mark-attendance'', retryAfter = None\<rparr>\<rparr>"

text \<open>Every submission in flight carries a payload with a truthy index number.\<close>

definition identified :: "scanner \<Rightarrow> bool" where
  "identified s = (\<forall>sub \<in> set (inflight s). truthyVal (getProp (fst sub) ''indexNumber''))"

section \<open>Releasing the camera\<close>

lemma stopTracks_length: "length (stopTracks sid m) = length m"
  by (simp add: stopTracks_def)

lemma stopTracks_dead: "sid < length m \<Longrightarrow> True \<notin> set (stopTracks sid m ! sid)"
  by (auto simp: stopTracks_def)

lemma stopTracks_other: "i \<noteq> sid \<Longrightarrow> stopTracks sid m ! i = m ! i"
  by (simp add: stopTracks_def)

lemma stopScanner_idem: "stopScanner (stopScanner w) = stopScanner w"
  by (cases "animationRef w"; cases "streamRef w"; cases "videoRef w")
     (simp_all add: stopScanner_def Let_def)

lemma stopScanner_nothing_held:
  "animationRef w = None \<Longrightarrow> streamRef w = None \<Longrightarrow>
   stopScanner w =
     w\<lparr>videoRef := map_option (\<lambda>v. v\<lparr>srcObject := None\<rparr>) (videoRef w), h_scanning := False\<rparr>"
  by (cases "videoRef w") (simp_all add: stopScanner_def Let_def)

lemma stopScanner_noop:
  "animationRef w = None \<Longrightarrow> streamRef w = None \<Longrightarrow> \<not> h_scanning w \<Longrightarrow>
   (\<forall>v. videoRef w = Some v \<longrightarrow> srcObject v = None) \<Longrightarrow> stopScanner w = w"
  by (cases "videoRef w") (simp_all add: stopScanner_def Let_def)

lemma stopScanner_fields:
  "streamRef (stopScanner w) = None"
  "h_scanning (stopScanner w) = False"
  "videoRef (stopScanner w) = map_option (\<lambda>v. v\<lparr>srcObject := None\<rparr>) (videoRef w)"
  "media (stopScanner w) =
     (case streamRef w of None \<Rightarrow> media w | Some sid \<Rightarrow> stopTracks sid (media w))"
  "detached (stopScanner w) = detached w"
  "pendingStarts (stopScanner w) = pendingStarts w"
  "h_scannedData (stopScanner w) = h_scannedData w"
  by (cases "animationRef w"; cases "streamRef w"; cases "videoRef w";
      simp add: stopScanner_def Let_def)+

lemma stopScanner_frames:
  "animationRef w = Some i \<Longrightarrow> 0 < i \<Longrightarrow>
   animationRef (stopScanner w) = None \<and> frames (stopScanner w) = removeAll i (frames w)"
  by (cases "streamRef w"; cases "videoRef w") (simp_all add: stopScanner_def Let_def)

lemma active_after_stop:
  assumes "\<forall>i \<in> set (activeStreams w). streamRef w = Some i"
  shows "activeStreams (stopScanner w) = []"
proof (cases "streamRef w")
  case None
  with assms have "activeStreams w = []" by (cases "activeStreams w") auto
  with None show ?thesis by (simp add: activeStreams_def stopScanner_fields)
next
  case (Some sid)
  have "\<And>i. i < length (media w) \<Longrightarrow> True \<notin> set (stopTracks sid (media w) ! i)"
  proof -
    fix i assume i: "i < length (media w)"
    show "True \<notin> set (stopTracks sid (media w) ! i)"
    proof (cases "i = sid")
      case True with i show ?thesis by (simp add: stopTracks_dead)
    next
      case False
      with assms Some i have "i \<notin> set (activeStreams w)" by auto
      with i False show ?thesis by (simp add: activeStreams_def liveStreams_def stopTracks_other)
    qed
  qed
  with Some show ?thesis
    by (auto simp: activeStreams_def liveStreams_def stopScanner_fields stopTracks_length
        filter_empty_conv)
qed

lemma processFrame_Code:
  "sc \<Longrightarrow> videoRef w \<noteq> None \<Longrightarrow> h_canvasRef w \<Longrightarrow>
   \<exists>w1. processFrame parse sc (Ready (Code t)) w = stopScanner w1
        \<and> streamRef w1 = streamRef w \<and> media w1 = media w"
  by (cases "parse t") (auto simp: processFrame_def Let_def)

text \<open>The \<open>processFrame\<close> of the first render, the one the mounted hook requests frames
  for, returns at once: its \<open>scanning\<close> is off.\<close>

lemma first_render_processFrame: "processFrame parse False fr w = w"
  by (simp add: processFrame_def)

lemma unmount_fields:
  "streamRef (unmount w) = None" "videoRef (unmount w) = None"
  "detached (unmount w) = videoRef w" "h_scanning (unmount w) = False"
  "media (unmount w) = media (stopScanner w)"
  "pendingStarts (unmount w) = pendingStarts w"
  by (simp_all add: unmount_def stopScanner_fields split: option.split)

lemma sampleHook_eval:
  "streamRef sampleHook = Some 0" "media sampleHook = [[True, True]]"
  "activeStreams sampleHook = [0]" "h_scanning sampleHook"
  "animationRef sampleHook = Some 1" "frames sampleHook = [1]"
  "videoRef sampleHook = Some \<lparr>srcObject = Some 0, playing = True, onloadedmetadata = True\<rparr>"
  "detached sampleHook = None" "pendingStarts sampleHook = 0"
  by (simp_all add: sampleHook_def requestAnimationFrame_def startScanner_def
      startScannerSettled_def hook0_def Let_def activeStreams_def liveStreams_def
      numeral_2_eq_2)

text \<open>
  C6, as the code has it. \<open>stopScanner\<close> stops every track of the stream in \<open>streamRef\<close>,
  forgets the stream, cancels the requested animation frame and ends the scanning state,
  whatever the state it is called in; when the current stream is the only active one, no
  stream is active afterwards. It clears the source of the video element only while the
  element is attached to \<open>videoRef\<close>: on unmount React has detached it before the cleanup
  runs, so the tracks are stopped and the element keeps its (stopped) stream as source. It
  does not cancel a start whose \<open>getUserMedia\<close> is pending. It is idempotent. Called with
  no stream and no frame request held, it changes at most the scanning state and the
  source of the attached element, and nothing at all when these are off and empty. A
  \<open>processFrame\<close> created by a render with \<open>scanning\<close> on releases through it when a symbol
  is decoded; the one the mounted hook registers is the first render's, which returns
  before it decodes anything. It has no failing branch.
\<close>

theorem stopScanner_releases:
  "(\<forall>sid. streamRef w = Some sid \<and> sid < length (media w)
       \<longrightarrow> True \<notin> set (media (stopScanner w) ! sid))
   \<and> streamRef (stopScanner w) = None
   \<and> videoRef (stopScanner w) = map_option (\<lambda>v. v\<lparr>srcObject := None\<rparr>) (videoRef w)
   \<and> detached (stopScanner w) = detached w
   \<and> h_scanning (stopScanner w) = False
   \<and> pendingStarts (stopScanner w) = pendingStarts w
   \<and> (\<forall>i. animationRef w = Some i \<and> 0 < i
        \<longrightarrow> animationRef (stopScanner w) = None \<and> i \<notin> set (frames (stopScanner w)))
   \<and> ((\<forall>i \<in> set (activeStreams w). streamRef w = Some i)
        \<longrightarrow> activeStreams (stopScanner w) = [])
   \<and> stopScanner (stopScanner w) = stopScanner w
   \<and> (streamRef w = None \<and> animationRef w = None \<longrightarrow>
        stopScanner w =
          w\<lparr>videoRef := map_option (\<lambda>v. v\<lparr>srcObject := None\<rparr>) (videoRef w),
            h_scanning := False\<rparr>)
   \<and> (streamRef w = None \<and> animationRef w = None \<and> \<not> h_scanning w
        \<and> (\<forall>v. videoRef w = Some v \<longrightarrow> srcObject v = None) \<longrightarrow> stopScanner w = w)
   \<and> streamRef (unmount w) = None
   \<and> media (unmount w) = media (stopScanner w)
   \<and> videoRef (unmount w) = None
   \<and> detached (unmount w) = videoRef w
   \<and> (videoRef w \<noteq> None \<and> h_canvasRef w \<longrightarrow>
        streamRef (processFrame parse True (Ready (Code t)) w) = None
        \<and> (\<forall>sid. streamRef w = Some sid \<and> sid < length (media w)
              \<longrightarrow> True \<notin> set (media (processFrame parse True (Ready (Code t)) w) ! sid)))"
proof (intro conjI)
  show "\<forall>sid. streamRef w = Some sid \<and> sid < length (media w)
       \<longrightarrow> True \<notin> set (media (stopScanner w) ! sid)"
    by (simp add: stopScanner_fields stopTracks_dead)
  show "streamRef (stopScanner w) = None" by (simp add: stopScanner_fields)
  show "videoRef (stopScanner w) = map_option (\<lambda>v. v\<lparr>srcObject := None\<rparr>) (videoRef w)"
    by (simp add: stopScanner_fields)
  show "detached (stopScanner w) = detached w" by (simp add: stopScanner_fields)
  show "h_scanning (stopScanner w) = False" by (simp add: stopScanner_fields)
  show "pendingStarts (stopScanner w) = pendingStarts w" by (simp add: stopScanner_fields)
  show "\<forall>i. animationRef w = Some i \<and> 0 < i
        \<longrightarrow> animationRef (stopScanner w) = None \<and> i \<notin> set (frames (stopScanner w))"
    by (simp add: stopScanner_frames)
  show "(\<forall>i \<in> set (activeStreams w). streamRef w = Some i)
        \<longrightarrow> activeStreams (stopScanner w) = []"
    using active_after_stop by blast
  show "stopScanner (stopScanner w) = stopScanner w" by (rule stopScanner_idem)
  show "streamRef w = None \<and> animationRef w = None \<longrightarrow>
        stopScanner w =
          w\<lparr>videoRef := map_option (\<lambda>v. v\<lparr>srcObject := None\<rparr>) (videoRef w),
            h_scanning := False\<rparr>"
    using stopScanner_nothing_held by blast
  show "streamRef w = None \<and> animationRef w = None \<and> \<not> h_scanning w
        \<and> (\<forall>v. videoRef w = Some v \<longrightarrow> srcObject v = None) \<longrightarrow> stopScanner w = w"
    using stopScanner_noop by blast
  show "streamRef (unmount w) = None" by (simp add: unmount_fields)
  show "media (unmount w) = media (stopScanner w)" by (simp add: unmount_fields)
  show "videoRef (unmount w) = None" by (simp add: unmount_fields)
  show "detached (unmount w) = videoRef w" by (simp add: unmount_fields)
  show "videoRef w \<noteq> None \<and> h_canvasRef w \<longrightarrow>
        streamRef (processFrame parse True (Ready (Code t)) w) = None
        \<and> (\<forall>sid. streamRef w = Some sid \<and> sid < length (media w)
              \<longrightarrow> True \<notin> set (media (processFrame parse True (Ready (Code t)) w) ! sid))"
  proof (intro impI)
    assume a: "videoRef w \<noteq> None \<and> h_canvasRef w"
    then obtain w1 where w1: "processFrame parse True (Ready (Code t)) w = stopScanner w1"
      "streamRef w1 = streamRef w" "media w1 = media w"
      using processFrame_Code [of True w parse t] by blast
    show "streamRef (processFrame parse True (Ready (Code t)) w) = None
        \<and> (\<forall>sid. streamRef w = Some sid \<and> sid < length (media w)
              \<longrightarrow> True \<notin> set (media (processFrame parse True (Ready (Code t)) w) ! sid))"
      using w1 by (simp add: stopScanner_fields stopTracks_dead)
  qed
qed

text \<open>
  C6 as stated fails. On unmount the tracks are stopped, but the video element, already
  detached, keeps its source. And called while a start is pending, with no stream and no
  frame request held, \<open>stopScanner\<close> is not a no-op: it ends the scanning state.
\<close>

theorem unmount_keeps_sink:
  "videoRef sampleHook = Some \<lparr>srcObject = Some 0, playing = True, onloadedmetadata = True\<rparr>
   \<and> media (unmount sampleHook) = [[False, False]]
   \<and> videoRef (unmount sampleHook) = None
   \<and> detached (unmount sampleHook)
       = Some \<lparr>srcObject = Some 0, playing = True, onloadedmetadata = True\<rparr>
   \<and> streamRef (startScanner hook0) = None \<and> animationRef (startScanner hook0) = None
   \<and> h_scanning (startScanner hook0)
   \<and> \<not> h_scanning (stopScanner (startScanner hook0))"
  by (simp add: unmount_fields stopScanner_fields sampleHook_eval stopTracks_def
      startScanner_def hook0_def)

theorem stopScanner_releases_witness:
  "streamRef sampleHook = Some 0 \<and> media sampleHook = [[True, True]]
   \<and> animationRef sampleHook = Some 1 \<and> activeStreams sampleHook = [0]
   \<and> media (stopScanner sampleHook) = [[False, False]]
   \<and> activeStreams (stopScanner sampleHook) = []
   \<and> streamRef (stopScanner sampleHook) = None
   \<and> animationRef (stopScanner sampleHook) = None
   \<and> frames (stopScanner sampleHook) = []
   \<and> videoRef (stopScanner sampleHook)
       = Some \<lparr>srcObject = None, playing = True, onloadedmetadata = True\<rparr>
   \<and> stopScanner (stopScanner sampleHook) = stopScanner sampleHook
   \<and> stopScanner (startScanner hook0) = (startScanner hook0)\<lparr>h_scanning := False\<rparr>
   \<and> stopScanner hook0 = hook0
   \<and> media (unmount sampleHook) = [[False, False]]
   \<and> streamRef (processFrame sampleParse True (Ready (Code validText)) sampleHook) = None
   \<and> media (processFrame sampleParse True (Ready (Code validText)) sampleHook)
       = [[False, False]]"
proof -
  note t = stopScanner_releases [of sampleHook sampleParse validText]
  note t0 = stopScanner_releases [of hook0 sampleParse validText]
  note t1 = stopScanner_releases [of "startScanner hook0" sampleParse validText]
  have m: "media (stopScanner sampleHook) = [[False, False]]"
    by (simp add: stopScanner_fields sampleHook_eval stopTracks_def)
  have a: "activeStreams (stopScanner sampleHook) = []"
    using t by (simp add: sampleHook_eval)
  have f: "frames (stopScanner sampleHook) = []"
    by (simp add: stopScanner_frames sampleHook_eval)
  have n: "stopScanner hook0 = hook0"
    using t0 by (simp add: hook0_def)
  have p: "stopScanner (startScanner hook0) = (startScanner hook0)\<lparr>h_scanning := False\<rparr>"
    using t1 by (simp add: hook0_def startScanner_def)
  have c: "h_canvasRef sampleHook"
    by (simp add: sampleHook_def requestAnimationFrame_def startScanner_def
        startScannerSettled_def hook0_def Let_def)
  have q: "media (processFrame sampleParse True (Ready (Code validText)) sampleHook)
       = [[False, False]]"
    by (simp add: processFrame_def c sampleHook_eval sampleParse_def Let_def
        stopScanner_fields stopTracks_def)
  show ?thesis using t m a f n p q c by (simp add: sampleHook_eval)
qed

section \<open>One stream at a time\<close>

lemma startScanner_fields:
  "media (startScanner w) = media w" "streamRef (startScanner w) = streamRef w"
  "pendingStarts (startScanner w) = Suc (pendingStarts w)"
  "activeStreams (startScanner w) = activeStreams w"
  by (simp_all add: startScanner_def activeStreams_def)

lemma startScannerSettled_fields:
  "media (startScannerSettled (Inr n) w) = media w @ [replicate n True]"
  "streamRef (startScannerSettled (Inr n) w) = Some (length (media w))"
  "pendingStarts (startScannerSettled gum w) = pendingStarts w - 1"
  "media (startScannerSettled (Inl msg) w) = media w"
  "streamRef (startScannerSettled (Inl msg) w) = streamRef w"
  by (cases gum; cases "videoRef w"; simp add: startScannerSettled_def Let_def)+

lemma liveStreams_append:
  "liveStreams (m @ [x]) = liveStreams m @ (if True \<in> set x then [length m] else [])"
proof -
  have "filter (\<lambda>i. True \<in> set ((m @ [x]) ! i)) [0 ..< length m]
        = filter (\<lambda>i. True \<in> set (m ! i)) [0 ..< length m]"
    by (rule filter_cong) (auto simp: nth_append)
  then show ?thesis by (simp add: liveStreams_def)
qed

lemma activeStreams_settled:
  "activeStreams (startScannerSettled (Inr n) w) =
     activeStreams w @ (if 0 < n then [length (media w)] else [])"
  by (simp add: activeStreams_def startScannerSettled_fields liveStreams_append)

lemma activeStreams_rejected:
  "activeStreams (startScannerSettled (Inl msg) w) = activeStreams w"
  by (simp add: activeStreams_def startScannerSettled_fields)

lemma tracked_none: "tracked w \<Longrightarrow> streamRef w = None \<Longrightarrow> activeStreams w = []"
  by (cases "activeStreams w") (auto simp: tracked_def)

lemma tracked_at_most_one:
  assumes "tracked w"
  shows "length (activeStreams w) \<le> 1"
proof (cases "streamRef w")
  case None
  with assms show ?thesis by (simp add: tracked_none)
next
  case (Some sid)
  with assms have "set (activeStreams w) \<subseteq> {sid}" by (auto simp: tracked_def)
  then have "card (set (activeStreams w)) \<le> 1"
    using card_mono [of "{sid}" "set (activeStreams w)"] by simp
  moreover have "distinct (activeStreams w)" by (simp add: activeStreams_def liveStreams_def)
  ultimately show ?thesis by (simp add: distinct_card)
qed

lemma tracked_stopScanner: "tracked w \<Longrightarrow> tracked (stopScanner w)"
  by (simp add: tracked_def active_after_stop stopScanner_fields)

lemma tracked_unmount: "tracked w \<Longrightarrow> tracked (unmount w)"
proof -
  assume a: "tracked w"
  have "tracked (w\<lparr>detached := videoRef w, videoRef := None, h_canvasRef := False\<rparr>)"
    using a by (simp add: tracked_def activeStreams_def)
  then show ?thesis unfolding unmount_def by (rule tracked_stopScanner)
qed

lemma tracked_startScanner:
  "tracked w \<Longrightarrow> streamRef w = None \<Longrightarrow> pendingStarts w = 0 \<Longrightarrow> tracked (startScanner w)"
  by (simp add: tracked_def startScanner_fields)

lemma tracked_settled:
  assumes "tracked w" "0 < pendingStarts w"
  shows "tracked (startScannerSettled gum w)"
proof -
  from assms have s: "streamRef w = None" and p: "pendingStarts w \<le> 1"
    by (auto simp: tracked_def)
  from assms(1) s have a: "activeStreams w = []" by (rule tracked_none)
  show ?thesis
  proof (cases gum)
    case (Inl msg)
    with s p a show ?thesis
      by (simp add: tracked_def activeStreams_rejected startScannerSettled_fields)
  next
    case (Inr n)
    with s p a show ?thesis
      by (simp add: tracked_def activeStreams_settled startScannerSettled_fields)
  qed
qed

lemma tracked_requestAnimationFrame: "tracked w \<Longrightarrow> tracked (requestAnimationFrame w)"
  by (simp add: tracked_def requestAnimationFrame_def activeStreams_def)

lemma tracked_hookStep:
  assumes "tracked w" "e = StartScanner \<longrightarrow> streamRef w = None \<and> pendingStarts w = 0"
  shows "tracked (hookStep parse e w)"
proof (cases e)
  case StartScanner
  with assms show ?thesis by (simp add: tracked_startScanner)
next
  case (StartSettles gum)
  with assms show ?thesis by (simp add: tracked_settled)
next
  case StopScanner
  with assms show ?thesis by (simp add: tracked_stopScanner)
next
  case Unmount
  with assms show ?thesis by (simp add: tracked_unmount)
next
  case LoadedMetadata
  with assms show ?thesis
    by (simp add: tracked_requestAnimationFrame split: option.split)
next
  case (AnimationFrame fr)
  have "\<And>rest. tracked (w\<lparr>frames := rest\<rparr>)"
    using assms by (simp add: tracked_def activeStreams_def)
  with AnimationFrame assms show ?thesis
    by (simp add: first_render_processFrame split: list.split)
qed

lemma disciplined_tracked:
  "tracked w \<Longrightarrow> disciplined parse evs w \<Longrightarrow> tracked (hookRun parse evs w)"
  unfolding hookRun_def
  by (induction evs arbitrary: w) (simp_all add: tracked_hookStep)

lemma tracked_hook0: "tracked hook0"
  by (simp add: tracked_def hook0_def activeStreams_def liveStreams_def)

lemma hookRun_snoc: "hookRun parse (evs @ [e]) w = hookStep parse e (hookRun parse evs w)"
  by (simp add: hookRun_def)

lemma toggleCamera_flips: "facingMode (toggleCamera s) \<noteq> facingMode s"
  by (simp add: toggleCamera_def)

lemma webcamUpdate_releases:
  assumes "\<forall>i \<in> set (liveStreams (w_media wc)). userMedia wc = Some i"
    and "fm \<noteq> videoConstraints wc" and "0 < n"
  shows "liveStreams (w_media (webcamUpdate fm (Inr n) wc)) = [length (w_media wc)]"
    and "userMedia (webcamUpdate fm (Inr n) wc) = Some (length (w_media wc))"
proof -
  define m1 where "m1 = (case userMedia wc of None \<Rightarrow> w_media wc
                           | Some sid \<Rightarrow> stopTracks sid (w_media wc))"
  have len: "length m1 = length (w_media wc)"
    by (simp add: m1_def stopTracks_length split: option.split)
  have dead: "\<And>i. i < length (w_media wc) \<Longrightarrow> True \<notin> set (m1 ! i)"
  proof -
    fix i assume i: "i < length (w_media wc)"
    show "True \<notin> set (m1 ! i)"
    proof (cases "userMedia wc = Some i")
      case True with i show ?thesis by (simp add: m1_def stopTracks_dead)
    next
      case False
      with assms(1) have "i \<notin> set (liveStreams (w_media wc))" by auto
      with i have d: "True \<notin> set (w_media wc ! i)" by (simp add: liveStreams_def)
      from False d show ?thesis
        by (cases "userMedia wc") (simp_all add: m1_def stopTracks_other)
    qed
  qed
  have "liveStreams m1 = []"
    using dead len by (auto simp: liveStreams_def filter_empty_conv)
  with assms(2,3) len
  show "liveStreams (w_media (webcamUpdate fm (Inr n) wc)) = [length (w_media wc)]"
    by (simp add: webcamUpdate_def Let_def m1_def [symmetric] liveStreams_append)
  from assms(2) len
  show "userMedia (webcamUpdate fm (Inr n) wc) = Some (length (w_media wc))"
    by (simp add: webcamUpdate_def Let_def m1_def [symmetric])
qed

text \<open>
  C3, as the code has it. \<open>startScanner\<close> stops no stream: when its \<open>getUserMedia\<close> resolves,
  the new stream joins the active ones and replaces the one in \<open>streamRef\<close>. At most one
  stream is active, and every active stream is the one in \<open>streamRef\<close>, throughout every run
  of the mounted hook in which \<open>startScanner\<close> is called only while no stream is held and no
  start is pending; in such a run, when a pending start resolves with a live stream, that
  stream is the only active one. \<open>toggleCamera\<close> flips the facing mode between
  "environment" and "user" and changes nothing else of the component, which holds no
  stream itself; the \<open>Webcam\<close> element, as the spec describes it, then releases the stream
  it holds before it acquires the one for the new mode, so exactly one stream is active
  afterwards.
\<close>

theorem one_stream_when_released_first:
  "(disciplined parse evs hook0 \<longrightarrow>
      length (activeStreams (hookRun parse evs hook0)) \<le> 1
      \<and> (\<forall>i \<in> set (activeStreams (hookRun parse evs hook0)).
            streamRef (hookRun parse evs hook0) = Some i))
   \<and> (disciplined parse evs hook0 \<and> 0 < pendingStarts (hookRun parse evs hook0) \<and> 0 < n \<longrightarrow>
        activeStreams (hookRun parse (evs @ [StartSettles (Inr n)]) hook0)
          = [length (media (hookRun parse evs hook0))]
        \<and> streamRef (hookRun parse (evs @ [StartSettles (Inr n)]) hook0)
          = Some (length (media (hookRun parse evs hook0))))
   \<and> activeStreams (startScanner w) = activeStreams w
   \<and> streamRef (startScanner w) = streamRef w
   \<and> activeStreams (startScannerSettled (Inr n) w)
       = activeStreams w @ (if 0 < n then [length (media w)] else [])
   \<and> facingMode (toggleCamera s)
       = (if facingMode s = ''environment'' then ''user'' else ''environment'')
   \<and> (toggleCamera s)\<lparr>facingMode := facingMode s\<rparr> = s
   \<and> ((\<forall>i \<in> set (liveStreams (w_media wc)). userMedia wc = Some i)
        \<and> videoConstraints wc = facingMode s \<and> 0 < n \<longrightarrow>
        liveStreams (w_media (webcamUpdate (facingMode (toggleCamera s)) (Inr n) wc))
          = [length (w_media wc)]
        \<and> userMedia (webcamUpdate (facingMode (toggleCamera s)) (Inr n) wc)
          = Some (length (w_media wc)))"
proof (intro conjI)
  show "disciplined parse evs hook0 \<longrightarrow>
      length (activeStreams (hookRun parse evs hook0)) \<le> 1
      \<and> (\<forall>i \<in> set (activeStreams (hookRun parse evs hook0)).
            streamRef (hookRun parse evs hook0) = Some i)"
  proof
    assume "disciplined parse evs hook0"
    then have t: "tracked (hookRun parse evs hook0)"
      using disciplined_tracked [OF tracked_hook0] by blast
    then show "length (activeStreams (hookRun parse evs hook0)) \<le> 1
      \<and> (\<forall>i \<in> set (activeStreams (hookRun parse evs hook0)).
            streamRef (hookRun parse evs hook0) = Some i)"
      using tracked_at_most_one [OF t] by (simp add: tracked_def)
  qed
  show "disciplined parse evs hook0 \<and> 0 < pendingStarts (hookRun parse evs hook0) \<and> 0 < n \<longrightarrow>
        activeStreams (hookRun parse (evs @ [StartSettles (Inr n)]) hook0)
          = [length (media (hookRun parse evs hook0))]
        \<and> streamRef (hookRun parse (evs @ [StartSettles (Inr n)]) hook0)
          = Some (length (media (hookRun parse evs hook0)))"
  proof
    assume a: "disciplined parse evs hook0 \<and> 0 < pendingStarts (hookRun parse evs hook0) \<and> 0 < n"
    then have t: "tracked (hookRun parse evs hook0)"
      using disciplined_tracked [OF tracked_hook0] by blast
    with a have "streamRef (hookRun parse evs hook0) = None" by (simp add: tracked_def)
    with t have "activeStreams (hookRun parse evs hook0) = []" by (rule tracked_none)
    with a show "activeStreams (hookRun parse (evs @ [StartSettles (Inr n)]) hook0)
          = [length (media (hookRun parse evs hook0))]
        \<and> streamRef (hookRun parse (evs @ [StartSettles (Inr n)]) hook0)
          = Some (length (media (hookRun parse evs hook0)))"
      by (simp add: hookRun_snoc activeStreams_settled startScannerSettled_fields)
  qed
  show "activeStreams (startScanner w) = activeStreams w" by (simp add: startScanner_fields)
  show "streamRef (startScanner w) = streamRef w" by (simp add: startScanner_fields)
  show "activeStreams (startScannerSettled (Inr n) w)
       = activeStreams w @ (if 0 < n then [length (media w)] else [])"
    by (rule activeStreams_settled)
  show "facingMode (toggleCamera s)
       = (if facingMode s = ''environment'' then ''user'' else ''environment'')"
    by (simp add: toggleCamera_def)
  show "(toggleCamera s)\<lparr>facingMode := facingMode s\<rparr> = s" by (simp add: toggleCamera_def)
  show "(\<forall>i \<in> set (liveStreams (w_media wc)). userMedia wc = Some i)
        \<and> videoConstraints wc = facingMode s \<and> 0 < n \<longrightarrow>
        liveStreams (w_media (webcamUpdate (facingMode (toggleCamera s)) (Inr n) wc))
          = [length (w_media wc)]
        \<and> userMedia (webcamUpdate (facingMode (toggleCamera s)) (Inr n) wc)
          = Some (length (w_media wc))"
  proof
    assume a: "(\<forall>i \<in> set (liveStreams (w_media wc)). userMedia wc = Some i)
        \<and> videoConstraints wc = facingMode s \<and> 0 < n"
    then have b: "\<forall>i \<in> set (liveStreams (w_media wc)). userMedia wc = Some i"
      and n: "0 < n" by simp_all
    from a have "facingMode (toggleCamera s) \<noteq> videoConstraints wc"
      using toggleCamera_flips [of s] by simp
    with b n show "liveStreams (w_media (webcamUpdate (facingMode (toggleCamera s)) (Inr n) wc))
          = [length (w_media wc)]
        \<and> userMedia (webcamUpdate (facingMode (toggleCamera s)) (Inr n) wc)
          = Some (length (w_media wc))"
      using webcamUpdate_releases [of wc "facingMode (toggleCamera s)" n] by blast
  qed
qed

text \<open>
  C3 as stated fails: a second start does not stop the stream of the first, and a release
  before the second start is not enough while the first start is still pending.
\<close>

theorem startScanner_twice_leaks:
  "activeStreams
     (hookRun sampleParse
        [StartScanner, StartSettles (Inr 1), StartScanner, StartSettles (Inr 1)] hook0) = [0, 1]
   \<and> activeStreams
       (hookRun sampleParse
          [StartScanner, StopScanner, StartScanner, StartSettles (Inr 1), StartSettles (Inr 1)]
          hook0) = [0, 1]"
proof -
  have h: "activeStreams hook0 = []" "media hook0 = []" "pendingStarts hook0 = 0"
    by (simp_all add: hook0_def activeStreams_def liveStreams_def)
  have s: "media (stopScanner (startScanner hook0)) = []"
    "activeStreams (stopScanner (startScanner hook0)) = []"
    "pendingStarts (stopScanner (startScanner hook0)) = 1"
    by (simp_all add: stopScanner_fields startScanner_fields hook0_def activeStreams_def
        liveStreams_def)
  have a: "activeStreams
     (hookRun sampleParse
        [StartScanner, StartSettles (Inr 1), StartScanner, StartSettles (Inr 1)] hook0) = [0, 1]"
    by (simp add: hookRun_def startScanner_fields activeStreams_settled
        startScannerSettled_fields h)
  have b: "activeStreams
       (hookRun sampleParse
          [StartScanner, StopScanner, StartScanner, StartSettles (Inr 1), StartSettles (Inr 1)]
          hook0) = [0, 1]"
    by (simp add: hookRun_def startScanner_fields activeStreams_settled
        startScannerSettled_fields s)
  from a b show ?thesis by (rule conjI)
qed

theorem one_stream_when_released_first_witness:
  "disciplined sampleParse
     [StartScanner, StartSettles (Inr 2), LoadedMetadata, StopScanner, StartScanner] hook0
   \<and> pendingStarts
       (hookRun sampleParse
          [StartScanner, StartSettles (Inr 2), LoadedMetadata, StopScanner, StartScanner] hook0) = 1
   \<and> media
       (hookRun sampleParse
          [StartScanner, StartSettles (Inr 2), LoadedMetadata, StopScanner, StartScanner] hook0)
       = [[False, False]]
   \<and> activeStreams
       (hookRun sampleParse
          ([StartScanner, StartSettles (Inr 2), LoadedMetadata, StopScanner, StartScanner]
           @ [StartSettles (Inr 1)]) hook0) = [1]
   \<and> streamRef
       (hookRun sampleParse
          ([StartScanner, StartSettles (Inr 2), LoadedMetadata, StopScanner, StartScanner]
           @ [StartSettles (Inr 1)]) hook0) = Some 1
   \<and> facingMode scanner0 = ''environment''
   \<and> facingMode (toggleCamera scanner0) = ''user''
   \<and> liveStreams (w_media sampleWebcam) = [0] \<and> userMedia sampleWebcam = Some 0
   \<and> liveStreams (w_media (webcamUpdate ''user'' (Inr 1) sampleWebcam)) = [1]
   \<and> userMedia (webcamUpdate ''user'' (Inr 1) sampleWebcam) = Some 1"
proof -
  let ?evs = "[StartScanner, StartSettles (Inr 2), LoadedMetadata, StopScanner, StartScanner]"
  let ?w = "hookRun sampleParse ?evs hook0"
  note t = one_stream_when_released_first [of sampleParse ?evs 1 hook0 scanner0 sampleWebcam]
  have d: "disciplined sampleParse ?evs hook0"
    by (simp add: startScanner_def startScannerSettled_def stopScanner_def
        requestAnimationFrame_def hook0_def Let_def)
  have r: "?w = startScanner (stopScanner sampleHook)"
    by (simp add: hookRun_def sampleHook_def startScanner_def startScannerSettled_def
        requestAnimationFrame_def hook0_def Let_def)
  have p: "pendingStarts ?w = 1"
    by (simp add: r startScanner_fields stopScanner_fields sampleHook_eval)
  have m: "media ?w = [[False, False]]"
    by (simp add: r startScanner_fields stopScanner_fields sampleHook_eval stopTracks_def)
  have f: "facingMode scanner0 = ''environment''" by (simp add: scanner0_def)
  have g: "facingMode (toggleCamera scanner0) = ''user''" by (simp add: toggleCamera_def f)
  have w: "liveStreams (w_media sampleWebcam) = [0]" "userMedia sampleWebcam = Some 0"
    "videoConstraints sampleWebcam = ''environment''" "length (w_media sampleWebcam) = 1"
    by (simp_all add: sampleWebcam_def liveStreams_def)
  have p0: "0 < pendingStarts ?w \<and> (0::nat) < 1" by (simp add: p)
  have b: "(\<forall>i \<in> set (liveStreams (w_media sampleWebcam)). userMedia sampleWebcam = Some i)
           \<and> videoConstraints sampleWebcam = facingMode scanner0"
    by (simp add: w f)
  note run = t [THEN conjunct2, THEN conjunct1, THEN mp, OF conjI [OF d p0]]
  note cam = t [THEN conjunct2, THEN conjunct2, THEN conjunct2, THEN conjunct2, THEN conjunct2,
      THEN conjunct2, THEN conjunct2, THEN mp, OF conjI [OF conjunct1 [OF b]
        conjI [OF conjunct2 [OF b] conjunct2 [OF p0]]]]
  have c1: "activeStreams (hookRun sampleParse (?evs @ [StartSettles (Inr 1)]) hook0) = [1]"
    using run by (simp only: m) simp
  have c2: "streamRef (hookRun sampleParse (?evs @ [StartSettles (Inr 1)]) hook0) = Some 1"
    using run by (simp only: m) simp
  have c3: "liveStreams (w_media (webcamUpdate ''user'' (Inr 1) sampleWebcam)) = [1]"
    using cam by (simp only: g w)
  have c4: "userMedia (webcamUpdate ''user'' (Inr 1) sampleWebcam) = Some 1"
    using cam by (simp only: g w)
  show ?thesis
    using d p m c1 c2 f g w(1) w(2) c3 c4 by (simp only: simp_thms)
qed

section \<open>Payloads without index number\<close>

lemma inflight_checkCameraPermission [simp]: "inflight (checkCameraPermission s) = inflight s"
  by (simp add: checkCameraPermission_def)

lemma inflight_setCameraPermission [simp]: "inflight (setCameraPermission v s) = inflight s"
  by (simp add: setCameraPermission_def)

lemma inflight_startScanning [simp]: "inflight (startScanning g s) = inflight s"
  by (simp add: startScanning_def split: prod.splits)

lemma inflight_stopScanning [simp]: "inflight (stopScanning s) = inflight s"
  by (simp add: stopScanning_def Let_def split: option.splits)

lemma inflight_captureAndProcessFrame [simp]:
  "inflight (captureAndProcessFrame c shot s) = inflight s"
  by (simp add: captureAndProcessFrame_def split: screenshot.splits)

lemma inflight_rejectCode [simp]: "inflight (rejectCode msg s) = inflight s"
  by (simp add: rejectCode_def)

lemma inflight_processImageData [simp]: "inflight (snd (processImageData parse d s)) = inflight s"
  by (simp add: processImageData_def Let_def split: decode.splits option.splits)

lemma processImageData_Some:
  "processImageData parse d s = (Some q, s1) \<Longrightarrow> truthyVal (getProp q ''indexNumber'')"
  by (auto simp: processImageData_def Let_def split: decode.splits option.splits if_splits)

lemma inflight_attendanceFailed [simp]: "inflight (attendanceFailed c err s) = inflight s"
  by (simp add: attendanceFailed_def)

lemma inflight_attendanceSettled [simp]: "inflight (attendanceSettled now res sub s) = inflight s"
  by (simp add: attendanceSettled_def split: prod.splits sum.splits option.splits)

lemma inflight_handleQRCodeDetected:
  "inflight (handleQRCodeDetected c q s) =
     (if truthy q \<and> truthyVal (getProp q ''indexNumber'') then inflight s @ [(q, c)] else inflight s)"
  by (simp add: handleQRCodeDetected_def Let_def)

lemma inflight_imageLoaded:
  "inflight (imageLoaded parse c d s) = inflight s
   \<or> (\<exists>q. truthyVal (getProp q ''indexNumber'') \<and> inflight (imageLoaded parse c d s) = inflight s @ [(q, c)])"
proof (cases "processImageData parse d s")
  case (Pair r s1)
  have s1: "inflight s1 = inflight s"
    using inflight_processImageData [of parse d s] Pair by simp
  show ?thesis
  proof (cases r)
    case None
    with Pair s1 show ?thesis by (cases d) (simp_all add: imageLoaded_def)
  next
    case (Some q)
    with Pair have "truthyVal (getProp q ''indexNumber'')" by (auto dest: processImageData_Some)
    with Pair Some s1 show ?thesis
      by (cases d) (auto simp: imageLoaded_def inflight_handleQRCodeDetected)
  qed
qed

lemma inflight_permissionGranted [simp]: "inflight (permissionGranted s) = inflight s"
  by (simp add: permissionGranted_def Let_def)

lemma inflight_permissionDenied [simp]: "inflight (permissionDenied s) = inflight s"
  by (simp add: permissionDenied_def)

lemma inflight_getAvailableCameras [simp]: "inflight (getAvailableCameras r s) = inflight s"
  by (simp add: getAvailableCameras_def Let_def split: sum.splits)

lemma inflight_onUserMediaError [simp]: "inflight (onUserMediaError msg s) = inflight s"
  by (simp add: onUserMediaError_def)

lemma inflight_toggleCamera [simp]: "inflight (toggleCamera s) = inflight s"
  by (simp add: toggleCamera_def)

lemma inflight_restart [simp]: "inflight (restart c s) = inflight s"
  by (simp add: restart_def)

lemma step_identified: "identified s \<Longrightarrow> identified (step parse now e s)"
proof (cases e)
  case (ImageLoads d)
  assume a: "identified s"
  show ?thesis
  proof (cases "images s")
    case Nil with a ImageLoads show ?thesis by simp
  next
    case (Cons c rest)
    let ?s = "s\<lparr>images := rest\<rparr>"
    have "inflight ?s = inflight s" by simp
    with a inflight_imageLoaded [of parse c d ?s] Cons ImageLoads show ?thesis
      by (auto simp: identified_def)
  qed
next
  case (Settles res)
  assume a: "identified s"
  then show ?thesis using Settles by (cases "inflight s") (auto simp: identified_def)
qed (auto simp: identified_def split: option.splits list.splits prod.splits)

lemma run_identified: "identified s \<Longrightarrow> identified (run parse now evs s)"
  unfolding run_def by (induction evs arbitrary: s) (simp_all add: step_identified)

lemma scanner0_identified: "identified scanner0"
  by (simp add: identified_def scanner0_def)

lemma imageLoaded_missing:
  assumes "parse t = Some q" "\<not> truthyVal (getProp q ''indexNumber'')"
  shows "imageLoaded parse c (Code t) s =
     rejectCode ''Invalid QR code data. Missing required information.''
       (s\<lparr>console := console s @ [''QR Code detected:'']\<rparr>)"
  using assms by (simp add: imageLoaded_def processImageData_def Let_def)

lemma digitalFailed_fields:
  "d_requests (digitalFailed err d) = d_requests d"
  "d_apiError (digitalFailed err d) = Some (messageOr err ''Failed to process attendance'')"
  "d_loading (digitalFailed err d) = False"
  by (simp_all add: digitalFailed_def)

lemma digitalDetected_missing:
  assumes "\<not> truthyVal (getProp q ''indexNumber'')"
  shows "d_requests (digitalDetected q d) = d_requests d"
    and "d_apiError (digitalDetected q d) =
           Some (if q = JNull then ''Cannot read properties of null (reading 'indexNumber')''
                 else ''Invalid QR code data. Missing student index number.'')"
    and "\<not> d_loading (digitalDetected q d)"
  using assms by (simp_all add: digitalDetected_def Let_def digitalFailed_fields messageOr_def Error_def)

text \<open>
  C2. A decoded payload whose \<open>indexNumber\<close> is missing (or falsy) is rejected by the decode
  cycle of the camera scanner with the error "Invalid QR code data. Missing required
  information.", shown as a toast and reported to \<open>onScanError\<close>; no submission is added, and
  the scanning flag, the timers and the timer reference stay as they were, so the session
  goes on scanning. The image scanner rejects it with an error of its own and issues no
  call either, and neither does \<open>handleScan\<close>. In every run of the camera scanner from its mount, every submission in
  flight carries a payload with a truthy \<open>indexNumber\<close>.
\<close>

theorem missing_indexNumber_rejected:
  "(parse t = Some qrData \<and> \<not> truthyVal (getProp qrData ''indexNumber'') \<longrightarrow>
      (let s' = imageLoaded parse c (Code t) s in
         error s' = Some (JStr ''Invalid QR code data. Missing required information.'')
         \<and> toasts s' = toasts s @
               [ToastError (JStr ''Invalid QR code data. Missing required information.'')]
         \<and> scanErrors s' = scanErrors s @
               [Error ''Invalid QR code data. Missing required information.'']
         \<and> inflight s' = inflight s \<and> scanning s' = scanning s
         \<and> intervals s' = intervals s \<and> intervalRef s' = intervalRef s
         \<and> loading s' = loading s \<and> timeouts s' = timeouts s)
      \<and> (let d' = detectQRCode parse parseUrl (Code t) d in
           d_requests d' = d_requests d \<and> d_apiError d' \<noteq> None \<and> \<not> d_loading d'
           \<and> (qrData \<noteq> JNull \<longrightarrow>
                d_apiError d' = Some ''Invalid QR code data. Missing student index number.''))
      \<and> r_requests (handleScan ld parse (Some t) r) = r_requests r)
   \<and> (\<not> truthyVal (getProp qrData ''indexNumber'') \<longrightarrow>
        inflight (handleQRCodeDetected c qrData s) = inflight s
        \<and> d_requests (digitalDetected qrData d) = d_requests d)
   \<and> (\<forall>sub \<in> set (inflight (run parse now evs scanner0)).
        truthyVal (getProp (fst sub) ''indexNumber''))"
proof (intro conjI impI)
  assume a: "parse t = Some qrData \<and> \<not> truthyVal (getProp qrData ''indexNumber'')"
  show "let s' = imageLoaded parse c (Code t) s in
         error s' = Some (JStr ''Invalid QR code data. Missing required information.'')
         \<and> toasts s' = toasts s @
               [ToastError (JStr ''Invalid QR code data. Missing required information.'')]
         \<and> scanErrors s' = scanErrors s @
               [Error ''Invalid QR code data. Missing required information.'']
         \<and> inflight s' = inflight s \<and> scanning s' = scanning s
         \<and> intervals s' = intervals s \<and> intervalRef s' = intervalRef s
         \<and> loading s' = loading s \<and> timeouts s' = timeouts s"
    using a by (simp add: imageLoaded_missing rejectCode_def)
  show "let d' = detectQRCode parse parseUrl (Code t) d in
           d_requests d' = d_requests d \<and> d_apiError d' \<noteq> None \<and> \<not> d_loading d'
           \<and> (qrData \<noteq> JNull \<longrightarrow>
                d_apiError d' = Some ''Invalid QR code data. Missing student index number.'')"
    using a by (simp add: detectQRCode_def Let_def digitalDetected_missing)
  show "r_requests (handleScan ld parse (Some t) r) = r_requests r"
    using a by (simp add: handleScan_def Let_def readerFailed_def)
next
  assume a: "\<not> truthyVal (getProp qrData ''indexNumber'')"
  show "inflight (handleQRCodeDetected c qrData s) = inflight s"
    using a by (simp add: inflight_handleQRCodeDetected)
  show "d_requests (digitalDetected qrData d) = d_requests d"
    using a by (simp add: digitalDetected_missing)
next
  show "\<forall>sub \<in> set (inflight (run parse now evs scanner0)).
        truthyVal (getProp (fst sub) ''indexNumber'')"
    using run_identified [OF scanner0_identified, of parse now evs]
    by (simp add: identified_def)
qed

lemma sampleParse_eval:
  "sampleParse validText = Some (JObj [(''indexNumber'', JStr ''S1''), (''name'', JStr ''Ann'')])"
  "sampleParse anonymousText = Some (JObj [(''name'', JStr ''Ann'')])"
  "sampleParse ''S1'' = None"
  "sampleParse urlText = None"
  by (simp_all add: sampleParse_def validText_def anonymousText_def urlText_def)

lemma scanning1_eval:
  "scanning scanning1" "intervals scanning1 = [(1, 0)]" "intervalRef scanning1 = Some 1"
  "inflight scanning1 = []" "images scanning1 = [0]" "error scanning1 = None"
  "toasts scanning1 = []" "console scanning1 = []" "scanErrors scanning1 = []" "\<not> loading scanning1"
  by (simp_all add: scanning1_def run_def scanner0_def permissionGranted_def setCameraPermission_def
      currentStart_def currentCpf_def startScanning_def captureAndProcessFrame_def webcamRef_def Let_def)

theorem missing_indexNumber_rejected_witness:
  "sampleParse anonymousText = Some (JObj [(''name'', JStr ''Ann'')])
   \<and> \<not> truthyVal (getProp (JObj [(''name'', JStr ''Ann'')]) ''indexNumber'')
   \<and> scanning scanning1
   \<and> scanning (step sampleParse sampleNow (ImageLoads (Code anonymousText)) scanning1)
   \<and> inflight (step sampleParse sampleNow (ImageLoads (Code anonymousText)) scanning1) = []
   \<and> intervals (step sampleParse sampleNow (ImageLoads (Code anonymousText)) scanning1) = [(1, 0)]
   \<and> error (step sampleParse sampleNow (ImageLoads (Code anonymousText)) scanning1)
       = Some (JStr ''Invalid QR code data. Missing required information.'')
   \<and> d_requests (detectQRCode sampleParse sampleUrl (Code anonymousText) digital0) = []
   \<and> d_apiError (detectQRCode sampleParse sampleUrl (Code anonymousText) digital0)
       = Some ''Invalid QR code data. Missing student index number.''"
  using missing_indexNumber_rejected [of sampleParse anonymousText "JObj [(''name'', JStr ''Ann'')]" 0
      "scanning1\<lparr>images := []\<rparr>" sampleUrl digital0 False reader0 sampleNow "[]"]
  by (simp add: sampleParse_eval scanning1_eval Let_def digital0_def)


section \<open>Frames without a symbol\<close>

lemma requestAnimationFrame_fields:
  "h_scanning (requestAnimationFrame w) = h_scanning w"
  "h_console (requestAnimationFrame w) = h_console w"
  "h_error (requestAnimationFrame w) = h_error w"
  "h_scannedData (requestAnimationFrame w) = h_scannedData w"
  "streamRef (requestAnimationFrame w) = streamRef w"
  "media (requestAnimationFrame w) = media w"
  "videoRef (requestAnimationFrame w) = videoRef w"
  "animationRef (requestAnimationFrame w) = Some (Suc (frameCount w))"
  "frames (requestAnimationFrame w) = frames w @ [Suc (frameCount w)]"
  by (simp_all add: requestAnimationFrame_def)

lemma processFrame_NoCode:
  "processFrame parse sc (Ready NoCode) w =
     (if \<not> sc \<or> videoRef w = None \<or> \<not> h_canvasRef w then w else requestAnimationFrame w)"
  by (simp add: processFrame_def)

lemma imageLoaded_NoCode: "imageLoaded parse c NoCode s = s"
  by (simp add: imageLoaded_def processImageData_def)

text \<open>
  C7. A decode cycle that finds no symbol changes nothing in the camera scanner: the
  \<open>onload\<close> returns the state it got, so the scanning flag, the timers, the error, the
  console, the toasts, the calls of \<open>onScanError\<close> and the submissions in flight are the
  same. In the hook, a frame without symbol leaves the scanning state, the console, the
  error, the scanned data and the stream as they were, and requests the next frame.
\<close>

theorem no_symbol_keeps_scanning:
  "imageLoaded parse c NoCode s = s
   \<and> processImageData parse NoCode s = (None, s)
   \<and> (let s' = step parse now (ImageLoads NoCode) s in
        scanning s' = scanning s \<and> inflight s' = inflight s \<and> intervals s' = intervals s
        \<and> intervalRef s' = intervalRef s \<and> loading s' = loading s \<and> error s' = error s
        \<and> console s' = console s \<and> toasts s' = toasts s \<and> scanErrors s' = scanErrors s
        \<and> timeouts s' = timeouts s)
   \<and> (let w' = processFrame parse sc (Ready NoCode) w in
        h_scanning w' = h_scanning w \<and> h_console w' = h_console w \<and> h_error w' = h_error w
        \<and> h_scannedData w' = h_scannedData w \<and> streamRef w' = streamRef w
        \<and> media w' = media w \<and> videoRef w' = videoRef w)
   \<and> (sc \<and> videoRef w \<noteq> None \<and> h_canvasRef w \<longrightarrow>
        animationRef (processFrame parse sc (Ready NoCode) w) = Some (Suc (frameCount w))
        \<and> frames (processFrame parse sc (Ready NoCode) w) = frames w @ [Suc (frameCount w)])"
proof (intro conjI)
  show "imageLoaded parse c NoCode s = s" by (rule imageLoaded_NoCode)
  show "processImageData parse NoCode s = (None, s)" by (simp add: processImageData_def)
  show "let s' = step parse now (ImageLoads NoCode) s in
        scanning s' = scanning s \<and> inflight s' = inflight s \<and> intervals s' = intervals s
        \<and> intervalRef s' = intervalRef s \<and> loading s' = loading s \<and> error s' = error s
        \<and> console s' = console s \<and> toasts s' = toasts s \<and> scanErrors s' = scanErrors s
        \<and> timeouts s' = timeouts s"
    by (cases "images s") (simp_all add: imageLoaded_NoCode)
  show "let w' = processFrame parse sc (Ready NoCode) w in
        h_scanning w' = h_scanning w \<and> h_console w' = h_console w \<and> h_error w' = h_error w
        \<and> h_scannedData w' = h_scannedData w \<and> streamRef w' = streamRef w
        \<and> media w' = media w \<and> videoRef w' = videoRef w"
    by (simp add: processFrame_NoCode requestAnimationFrame_fields)
  show "sc \<and> videoRef w \<noteq> None \<and> h_canvasRef w \<longrightarrow>
        animationRef (processFrame parse sc (Ready NoCode) w) = Some (Suc (frameCount w))
        \<and> frames (processFrame parse sc (Ready NoCode) w) = frames w @ [Suc (frameCount w)]"
    by (simp add: processFrame_NoCode requestAnimationFrame_fields)
qed

lemma sampleHook_more:
  "videoRef sampleHook \<noteq> None" "h_canvasRef sampleHook" "frameCount sampleHook = 1"
  "h_console sampleHook = []"
  by (simp_all add: sampleHook_def requestAnimationFrame_def startScanner_def
      startScannerSettled_def hook0_def Let_def)

theorem no_symbol_keeps_scanning_witness:
  "scanning scanning1 \<and> inflight scanning1 = []
   \<and> scanning (step sampleParse sampleNow (ImageLoads NoCode) scanning1)
   \<and> inflight (step sampleParse sampleNow (ImageLoads NoCode) scanning1) = []
   \<and> console (step sampleParse sampleNow (ImageLoads NoCode) scanning1) = []
   \<and> error (step sampleParse sampleNow (ImageLoads NoCode) scanning1) = None
   \<and> h_scanning sampleHook \<and> videoRef sampleHook \<noteq> None \<and> h_canvasRef sampleHook
   \<and> h_scanning (processFrame sampleParse True (Ready NoCode) sampleHook)
   \<and> h_console (processFrame sampleParse True (Ready NoCode) sampleHook) = []
   \<and> animationRef (processFrame sampleParse True (Ready NoCode) sampleHook) = Some 2"
  using no_symbol_keeps_scanning [of sampleParse 0 scanning1 sampleNow True sampleHook]
  by (simp add: scanning1_eval sampleHook_eval sampleHook_more Let_def)

section \<open>Interpreting the decoded text\<close>












section \<open>The outcome of a submission\<close>

lemma toISOString_nonempty: "toISOString d \<noteq> []"
  by (simp add: toISOString_def pad2_def)

lemma orElse_truthy: "truthy (orElse v d) \<or> d = []"
  by (cases v) (auto simp: orElse_def jsOr_def)

lemma orElse_eq: "truthyVal v \<Longrightarrow> Some (orElse v d) = v"
  by (cases v) (auto simp: orElse_def jsOr_def)

lemma scanResult_fields:
  "getProp (scanResult now qrData dat) ''status'' = Some (orElse (getProp dat ''status'') ''present'')"
  "getProp (scanResult now qrData dat) ''timestamp''
     = Some (orElse (getProp dat ''timestamp'') (toISOString now))"
  by (simp_all add: scanResult_def update_conv')

text \<open>The field of the response body each handler takes the status from, and the timestamp
  each one gives the outcome.\<close>

lemma processResponse_fields:
  "p_status (processResponse now dat qrData)
     = jsOr (getProp dat ''attendanceStatus'') (Some (JStr ''entered''))"
  "p_timestamp (processResponse now dat qrData) = toISOString now"
  by (simp_all add: processResponse_def Let_def)

lemma outcome_timestamp_set:
  "p_timestamp (processResponse now dat qrData) \<noteq> []"
  "truthyVal (getProp (scanResult now qrData dat) ''timestamp'')"
  using orElse_truthy [of "getProp dat ''timestamp''" "toISOString now"]
  by (simp_all add: processResponse_fields scanResult_fields toISOString_nonempty)

lemma sampleNow_iso: "toISOString sampleNow = ''2024-03-05T09:07:01.042Z''"
  by (simp add: toISOString_def sampleNow_def pad2_def digit_def)

text \<open>
  C8 fails in the camera scanner. The endpoint answers with the status in
  \<open>attendanceStatus\<close>; \<open>handleScan\<close> and the image scanner read that field, and the outcome
  they hand to \<open>onScanSuccess\<close> for a student who entered has the status "entered" and the
  current time as timestamp. The camera scanner reads \<open>status\<close>, a field the answer does
  not have, and falls back to "present": for the same answer its outcome has the status
  "present". Where an answer carries both fields with different values, the handlers
  disagree the other way round.
\<close>

theorem camera_outcome_status_present:
  "getProp documentedBody ''attendanceStatus'' = Some (JStr ''entered'')
   \<and> r_scanSuccesses
        (handleScanSettled showInt sampleNow
           (Inr \<lparr>status = 200, data = Some documentedBody, url = ''/students/mark-attendance'',
                 retryAfter = None\<rparr>)
           (JObj [(''indexNumber'', JStr ''S1'')]) reader0)
       = [processResponse sampleNow documentedBody (JObj [(''indexNumber'', JStr ''S1'')])]
   \<and> d_scanSuccesses
        (digitalSettled None sampleNow
           (Inr \<lparr>status = 200, data = Some documentedBody, url = ''/students/mark-attendance'',
                 retryAfter = None\<rparr>)
           (JObj [(''indexNumber'', JStr ''S1'')]) digital0)
       = [processResponse sampleNow documentedBody (JObj [(''indexNumber'', JStr ''S1'')])]
   \<and> p_status (processResponse sampleNow documentedBody (JObj [(''indexNumber'', JStr ''S1'')]))
       = Some (JStr ''entered'')
   \<and> p_timestamp (processResponse sampleNow documentedBody (JObj [(''indexNumber'', JStr ''S1'')]))
       = ''2024-03-05T09:07:01.042Z''
   \<and> scanSuccesses
        (attendanceSettled sampleNow
           (Inr \<lparr>status = 200, data = Some documentedBody, url = ''/students/mark-attendance'',
                 retryAfter = None\<rparr>)
           (JObj [(''indexNumber'', JStr ''S1'')], 0) scanning1)
       = [scanResult sampleNow (JObj [(''indexNumber'', JStr ''S1'')]) documentedBody]
   \<and> getProp (scanResult sampleNow (JObj [(''indexNumber'', JStr ''S1'')]) documentedBody) ''status''
       = Some (JStr ''present'')
   \<and> getProp (scanResult sampleNow (JObj [(''indexNumber'', JStr ''S1'')]) documentedBody)
         ''timestamp''
       = Some (JStr ''2024-03-05T09:07:01.042Z'')
   \<and> p_status (processResponse sampleNow twoStatusBody (JObj [(''indexNumber'', JStr ''S1'')]))
       = Some (JStr ''left'')
   \<and> getProp (scanResult sampleNow (JObj [(''indexNumber'', JStr ''S1'')]) twoStatusBody) ''status''
       = Some (JStr ''entered'')"
proof -
  have t: "truthy documentedBody" by (simp add: documentedBody_def)
  have s: "scanSuccesses scanning1 = []"
    by (simp add: scanning1_def run_def scanner0_def permissionGranted_def
        setCameraPermission_def currentStart_def currentCpf_def startScanning_def
        captureAndProcessFrame_def webcamRef_def Let_def)
  have r: "r_scanSuccesses
        (handleScanSettled showInt sampleNow
           (Inr \<lparr>status = 200, data = Some documentedBody, url = ''/students/mark-attendance'',
                 retryAfter = None\<rparr>)
           (JObj [(''indexNumber'', JStr ''S1'')]) reader0)
       = [processResponse sampleNow documentedBody (JObj [(''indexNumber'', JStr ''S1'')])]"
    using t by (simp add: handleScanSettled_def Let_def reader0_def)
  have d: "d_scanSuccesses
        (digitalSettled None sampleNow
           (Inr \<lparr>status = 200, data = Some documentedBody, url = ''/students/mark-attendance'',
                 retryAfter = None\<rparr>)
           (JObj [(''indexNumber'', JStr ''S1'')]) digital0)
       = [processResponse sampleNow documentedBody (JObj [(''indexNumber'', JStr ''S1'')])]"
    using t by (simp add: digitalSettled_def Let_def resetScanner_def digital0_def)
  have c: "scanSuccesses
        (attendanceSettled sampleNow
           (Inr \<lparr>status = 200, data = Some documentedBody, url = ''/students/mark-attendance'',
                 retryAfter = None\<rparr>)
           (JObj [(''indexNumber'', JStr ''S1'')], 0) scanning1)
       = [scanResult sampleNow (JObj [(''indexNumber'', JStr ''S1'')]) documentedBody]"
    using t s by (simp add: attendanceSettled_def)
  have f: "getProp documentedBody ''attendanceStatus'' = Some (JStr ''entered'')"
    "getProp documentedBody ''status'' = None" "getProp documentedBody ''timestamp'' = None"
    by (simp_all add: documentedBody_def)
  have g: "getProp twoStatusBody ''attendanceStatus'' = Some (JStr ''left'')"
    "getProp twoStatusBody ''status'' = Some (JStr ''entered'')"
    by (simp_all add: twoStatusBody_def)
  show ?thesis
    by (simp add: r d c f g processResponse_fields scanResult_fields sampleNow_iso
        orElse_def jsOr_def)
qed

section \<open>The request of a submission\<close>

lemma filter_dropWhile_not:
  "filter (\<lambda>c. \<not> P c) (dropWhile P cs) = filter (\<lambda>c. \<not> P c) cs"
  by (induction cs) auto

lemma replaceSpaces_filter: "replaceSpaces s = filter (\<lambda>c. \<not> isSpace c) s"
  by (induction s rule: replaceSpaces.induct) (auto simp: filter_dropWhile_not)


lemma apiRequest_calls:
  "calls (apiRequest p st nw cfg) =
     (if checkServerConnectivity p
      then [healthProbe, Send (case requestInterceptor p st cfg of Inr c \<Rightarrow> c | Inl e \<Rightarrow> cfg)]
      else [healthProbe])"
  by (auto simp: apiRequest_def requestInterceptor_def Let_def
           split: sum.splits net.splits prod.splits option.splits)

lemma requestInterceptor_keeps:
  "requestInterceptor p st cfg = Inr c \<Longrightarrow>
     requestUrl c = requestUrl cfg \<and> verb c = verb cfg \<and> body c = body cfg
     \<and> timeoutMs c = timeoutMs cfg"
  by (auto simp: requestInterceptor_def Let_def split: if_splits option.splits)


lemma markAttendance_calls:
  "calls (markAttendance ua p st nw q) =
     (case sanitizedQrData q of
        Inl e \<Rightarrow> []
      | Inr sq \<Rightarrow>
          calls (apiRequest p st nw
                   (post ''/students/mark-attendance''
                      \<lparr>qrCodeData = sq, deviceInfo = ua, scanLocation = ''QR Scanner App''\<rparr>)))"
  by (simp add: markAttendance_def Let_def split: sum.splits)


lemma replaceSpaces_sample: "replaceSpaces ''077 123 4567'' = ''0771234567''"
  by (simp add: replaceSpaces_filter isSpace_def)



section \<open>The connectivity probe\<close>

text \<open>
  C10, as the code has it. Every request through the \<open>api\<close> instance starts with the probe
  of the health endpoint (timeout 5000 ms), and the probe passes exactly when it answers
  200 with a body whose \<open>status\<close> is "ok". When it does not pass, the request handler throws
  "Server is not responding. Please check if the server is running." and the request is
  never sent; that error has no response, so the error handler of the response
  interceptor shows "Cannot connect to server..." and the caller's promise rejects with
  "Server connection failed". When it passes, the request is sent with its URL and body.
  \<open>markAttendance\<close> calls nothing or starts with the probe.
\<close>

theorem probe_before_every_request:
  "(\<exists>rest. calls (apiRequest p st nw cfg) = healthProbe # rest)
   \<and> checkServerConnectivity p
       = (\<exists>d. p = ProbeAnswers 200 d \<and> getPropOpt d ''status'' = Some (JStr ''ok''))
   \<and> (\<not> checkServerConnectivity p \<longrightarrow>
        calls (apiRequest p st nw cfg) = [healthProbe]
        \<and> requestInterceptor p st cfg
            = Inl (Error ''Server is not responding. Please check if the server is running.'')
        \<and> outcome (apiRequest p st nw cfg) = Inl (Error ''Server connection failed'')
        \<and> effects (apiRequest p st nw cfg)
            = [ToastError
                 (JStr ''Cannot connect to server. Please check your connection and try again.'')])
   \<and> (checkServerConnectivity p \<longrightarrow>
        (\<exists>cfg'. calls (apiRequest p st nw cfg) = [healthProbe, Send cfg']
                \<and> requestUrl cfg' = requestUrl cfg \<and> body cfg' = body cfg))
   \<and> (calls (markAttendance ua p st nw qrData) = []
        \<or> (\<exists>rest. calls (markAttendance ua p st nw qrData) = healthProbe # rest))
   \<and> (\<not> checkServerConnectivity p \<longrightarrow>
        (\<forall>c. Send c \<notin> set (calls (markAttendance ua p st nw qrData))))"
proof (intro conjI)
  show "\<exists>rest. calls (apiRequest p st nw cfg) = healthProbe # rest"
    by (simp add: apiRequest_calls)
  show "checkServerConnectivity p
       = (\<exists>d. p = ProbeAnswers 200 d \<and> getPropOpt d ''status'' = Some (JStr ''ok''))"
    by (cases p) (auto simp: checkServerConnectivity_def)
  show "\<not> checkServerConnectivity p \<longrightarrow>
        calls (apiRequest p st nw cfg) = [healthProbe]
        \<and> requestInterceptor p st cfg
            = Inl (Error ''Server is not responding. Please check if the server is running.'')
        \<and> outcome (apiRequest p st nw cfg) = Inl (Error ''Server connection failed'')
        \<and> effects (apiRequest p st nw cfg)
            = [ToastError
                 (JStr ''Cannot connect to server. Please check your connection and try again.'')]"
    by (simp add: apiRequest_def requestInterceptor_def responseRejected_def Error_def)
  show "checkServerConnectivity p \<longrightarrow>
        (\<exists>cfg'. calls (apiRequest p st nw cfg) = [healthProbe, Send cfg']
                \<and> requestUrl cfg' = requestUrl cfg \<and> body cfg' = body cfg)"
    by (cases "requestInterceptor p st cfg")
       (auto simp: apiRequest_calls requestInterceptor_def Let_def dest: requestInterceptor_keeps
             split: if_splits option.splits)
  show "calls (markAttendance ua p st nw qrData) = []
        \<or> (\<exists>rest. calls (markAttendance ua p st nw qrData) = healthProbe # rest)"
    by (cases "sanitizedQrData qrData") (simp_all add: markAttendance_calls apiRequest_calls)
  show "\<not> checkServerConnectivity p \<longrightarrow>
        (\<forall>c. Send c \<notin> set (calls (markAttendance ua p st nw qrData)))"
    by (cases "sanitizedQrData qrData") (simp_all add: markAttendance_calls apiRequest_calls)
qed

text \<open>C10 as stated fails: the submission is rejected with another error than the one the
  request handler throws.\<close>

theorem probe_failure_message:
  "outcome (markAttendance ''Mozilla/5.0'' ProbeFails sampleStorage acceptNet spacedPayload)
     = Inl (Error ''Server connection failed'')
   \<and> Error ''Server connection failed''
       \<noteq> Error ''Server is not responding. Please check if the server is running.''
   \<and> calls (markAttendance ''Mozilla/5.0'' ProbeFails sampleStorage acceptNet spacedPayload)
       = [healthProbe]"
  by (simp add: markAttendance_def sanitizedQrData_def spacedPayload_def Let_def replaceSpaces_sample
      apiRequest_def requestInterceptor_def checkServerConnectivity_def responseRejected_def Error_def
      isSpace_def)

theorem probe_before_every_request_witness:
  "\<not> checkServerConnectivity (ProbeAnswers 503 None)
   \<and> calls (apiRequest (ProbeAnswers 503 None) sampleStorage acceptNet (post ''/students/mark-attendance'' (0::nat)))
       = [healthProbe]
   \<and> outcome (apiRequest (ProbeAnswers 503 None) sampleStorage acceptNet (post ''/students/mark-attendance'' (0::nat)))
       = Inl (Error ''Server connection failed'')
   \<and> checkServerConnectivity okProbe
   \<and> length (calls (apiRequest okProbe sampleStorage acceptNet (post ''/students/mark-attendance'' (0::nat)))) = 2"
proof -
  have n: "\<not> checkServerConnectivity (ProbeAnswers 503 None)"
    by (simp add: checkServerConnectivity_def)
  have y: "checkServerConnectivity okProbe"
    by (simp add: checkServerConnectivity_def okProbe_def)
  note t1 = probe_before_every_request [of "ProbeAnswers 503 None" sampleStorage acceptNet
      "post ''/students/mark-attendance'' (0::nat)"]
  note t2 = probe_before_every_request [of okProbe sampleStorage acceptNet
      "post ''/students/mark-attendance'' (0::nat)"]
  from t1 n have a: "calls (apiRequest (ProbeAnswers 503 None) sampleStorage acceptNet (post ''/students/mark-attendance'' (0::nat))) = [healthProbe]"
     "outcome (apiRequest (ProbeAnswers 503 None) sampleStorage acceptNet (post ''/students/mark-attendance'' (0::nat)))
       = Inl (Error ''Server connection failed'')"
    by blast+
  from t2 y obtain cfg' where "calls (apiRequest okProbe sampleStorage acceptNet (post ''/students/mark-attendance'' (0::nat))) = [healthProbe, Send cfg']"
    by blast
  with n y a show ?thesis by simp
qed

section \<open>Runs of the camera scanner\<close>

lemmas scanner_defs =
  run_def scanner0_def permissionGranted_def permissionDenied_def setCameraPermission_def
  currentStart_def currentCpf_def startScanning_def stopScanning_def captureAndProcessFrame_def
  webcamRef_def imageLoaded_def processImageData_def handleQRCodeDetected_def
  attendanceSettled_def attendanceFailed_def errorMessage_def restart_def
  checkCameraPermission_def onUserMediaError_def rejectCode_def Let_def

text \<open>
  C5 on a run of the mounted component: the permission is granted, the first tick decodes
  a valid record, the submission is rejected with 409. The error shown is "Attendance
  already marked for this student today" and a restart is scheduled after 3000 ms. When
  it fires, it calls the \<open>startScanning\<close> of the first render, which sees
  \<open>cameraPermission = null\<close>: it probes the permission again and arms no timer, and the
  probe's answer changes nothing, so scanning stays off.
\<close>

theorem conflict_restart_not_armed:
  "error (run sampleParse sampleNow
            [PermissionResult True, Tick 1 Screenshot, ImageLoads (Code validText),
             Settles (Inl conflict)] scanner0)
     = Some (JStr ''Attendance already marked for this student today'')
   \<and> timeouts (run sampleParse sampleNow
            [PermissionResult True, Tick 1 Screenshot, ImageLoads (Code validText),
             Settles (Inl conflict)] scanner0) = [(3000, 0)]
   \<and> scanning (run sampleParse sampleNow
            [PermissionResult True, Tick 1 Screenshot, ImageLoads (Code validText),
             Settles (Inl conflict), TimeoutFires] scanner0) = False
   \<and> intervals (run sampleParse sampleNow
            [PermissionResult True, Tick 1 Screenshot, ImageLoads (Code validText),
             Settles (Inl conflict), TimeoutFires] scanner0) = []
   \<and> permissionChecks (run sampleParse sampleNow
            [PermissionResult True, Tick 1 Screenshot, ImageLoads (Code validText),
             Settles (Inl conflict), TimeoutFires] scanner0) = 1
   \<and> scanning (run sampleParse sampleNow
            [PermissionResult True, Tick 1 Screenshot, ImageLoads (Code validText),
             Settles (Inl conflict), TimeoutFires, PermissionResult True] scanner0) = False"
proof -
  let ?granted = "run sampleParse sampleNow [PermissionResult True] scanner0"
  let ?submitted = "run sampleParse sampleNow
      [PermissionResult True, Tick 1 Screenshot, ImageLoads (Code validText)] scanner0"
  let ?rejected = "run sampleParse sampleNow
      [PermissionResult True, Tick 1 Screenshot, ImageLoads (Code validText),
       Settles (Inl conflict)] scanner0"
  let ?fired = "run sampleParse sampleNow
      [PermissionResult True, Tick 1 Screenshot, ImageLoads (Code validText),
       Settles (Inl conflict), TimeoutFires] scanner0"
  let ?probed = "run sampleParse sampleNow
      [PermissionResult True, Tick 1 Screenshot, ImageLoads (Code validText),
       Settles (Inl conflict), TimeoutFires, PermissionResult True] scanner0"
  txt \<open>The grant replaces \<open>startScanning\<close>, not \<open>captureAndProcessFrame\<close>: the timer it arms
    calls the one of the first render.\<close>
  have granted:
    "startMemos ?granted = [(None, 0), (Some True, 0)]" "cpfMemos ?granted = [0]"
    "intervals ?granted = [(1, 0)]" "scanning ?granted"
    by (simp_all add: scanner_defs)
  txt \<open>The decode stops the timer and leaves one submission in flight.\<close>
  have submitted:
    "inflight ?submitted = [(JObj [(''indexNumber'', JStr ''S1''), (''name'', JStr ''Ann'')], 0)]"
    "intervals ?submitted = []" "\<not> scanning ?submitted" "loading ?submitted"
    by (simp_all add: scanner_defs sampleParse_eval)
  txt \<open>The rejection shows the duplicate message and schedules the restart.\<close>
  have rejected:
    "error ?rejected = Some (JStr ''Attendance already marked for this student today'')"
    "timeouts ?rejected = [(3000, 0)]" "\<not> loading ?rejected"
    by (simp_all add: scanner_defs sampleParse_eval conflict_def)
  txt \<open>The restart sees the permission of the first render and only probes again.\<close>
  have fired:
    "\<not> scanning ?fired" "intervals ?fired = []" "permissionChecks ?fired = 1"
    "error ?fired = None"
    by (simp_all add: scanner_defs sampleParse_eval conflict_def)
  have probed: "\<not> scanning ?probed"
    by (simp add: scanner_defs sampleParse_eval conflict_def)
  from rejected fired probed show ?thesis by simp
qed

text \<open>
  C1 on two runs of the mounted component. In the first the \<open>Webcam\<close> reports an error
  after scanning has started and the user tries again: the second \<open>startScanning\<close>
  overwrites \<open>intervalRef\<close>, the first timer is never cleared, and after a decode has
  stopped the second timer the first one hands the next decode to the submitter. In the
  second run two ticks pass before the first image has loaded. Both end with two
  submissions in flight.
\<close>

theorem overlapping_submissions:
  "length (inflight (run sampleParse sampleNow
      [PermissionResult True, WebcamError ''NotReadableError'', TryAgain, PermissionResult True,
       Tick 2 Screenshot, ImageLoads (Code validText),
       Tick 1 Screenshot, ImageLoads (Code validText)] scanner0)) = 2
   \<and> length (inflight (run sampleParse sampleNow
      [PermissionResult True, Tick 1 Screenshot, Tick 1 Screenshot,
       ImageLoads (Code validText), ImageLoads (Code validText)] scanner0)) = 2"
proof -
  let ?restarted = "run sampleParse sampleNow
      [PermissionResult True, WebcamError ''NotReadableError'', TryAgain, PermissionResult True]
      scanner0"
  let ?first = "run sampleParse sampleNow
      [PermissionResult True, WebcamError ''NotReadableError'', TryAgain, PermissionResult True,
       Tick 2 Screenshot, ImageLoads (Code validText)] scanner0"
  let ?second = "run sampleParse sampleNow
      [PermissionResult True, WebcamError ''NotReadableError'', TryAgain, PermissionResult True,
       Tick 2 Screenshot, ImageLoads (Code validText),
       Tick 1 Screenshot, ImageLoads (Code validText)] scanner0"
  let ?loading = "run sampleParse sampleNow
      [PermissionResult True, Tick 1 Screenshot, Tick 1 Screenshot] scanner0"
  let ?both = "run sampleParse sampleNow
      [PermissionResult True, Tick 1 Screenshot, Tick 1 Screenshot,
       ImageLoads (Code validText), ImageLoads (Code validText)] scanner0"
  txt \<open>Two timers are live, and \<open>intervalRef\<close> holds the second only.\<close>
  have restarted: "intervals ?restarted = [(1, 0), (2, 0)]" "intervalRef ?restarted = Some 2"
    by (simp_all add: scanner_defs)
  txt \<open>The hand-off clears the timer of \<open>intervalRef\<close>; the first timer stays live.\<close>
  have first: "length (inflight ?first) = 1" "intervals ?first = [(1, 0)]"
    "intervalRef ?first = None"
    by (simp_all add: scanner_defs sampleParse_eval)
  have second: "length (inflight ?second) = 2"
    by (simp add: scanner_defs sampleParse_eval)
  txt \<open>One timer, two images loading at once.\<close>
  have loading: "images ?loading = [0, 0]"
    by (simp add: scanner_defs)
  have both: "length (inflight ?both) = 2"
    by (simp add: scanner_defs sampleParse_eval)
  from second both show ?thesis by simp
qed

text \<open>What holds of every rejection with 409, and when the scheduled restart arms a timer.\<close>

lemma conflict_message_and_timer:
  "response err = Some r \<Longrightarrow> status r = 409 \<Longrightarrow>
   error (attendanceSettled now (Inl err) (q, c) s)
     = Some (JStr ''Attendance already marked for this student today'')
   \<and> toasts (attendanceSettled now (Inl err) (q, c) s)
     = toasts s @ [ToastError (JStr ''Attendance already marked for this student today'')]
   \<and> timeouts (attendanceSettled now (Inl err) (q, c) s) = timeouts s @ [(3000, c)]"
  by (simp add: attendanceSettled_def attendanceFailed_def errorMessage_def)

lemma restart_arms_iff:
  "scanning (restart c s) = (fst (startMemos s ! (cpfMemos s ! c)) = Some True \<or> scanning s)"
  by (auto simp: restart_def startScanning_def checkCameraPermission_def split: prod.splits)


end
